theory Spec2Isabelle
  imports Complex_Main "HOL-Library.Sublist" "HOL-Library.AList" "HOL-Library.Product_Lexorder"
    "HOL-Library.Multiset"
begin

section \<open>Values, dictionaries and exceptions\<close>

text \<open>
  The pipeline of \<^verbatim>\<open>third_workflow.py\<close> threads one dictionary through five functions
  and talks to a document store and to a language model. Documents and tasks are Python
  dictionaries with string keys whose values are JSON-like. A dictionary is an association
  list in insertion order, looked up with \<open>map_of\<close>.

  A Python float is a finite number, an infinity or NaN. Its arithmetic, with rounding and
  overflow, belongs to the collaborators below; the model itself only compares floats.
\<close>

datatype pyfloat = NegInf | Num real | PosInf | NaN

text \<open>
  \<^verbatim>\<open>a <= b\<close> on floats: the infinities lie below and above every number, and a comparison
  with NaN is false.
\<close>

fun float_rank :: "pyfloat \<Rightarrow> nat \<times> real" where
  "float_rank NegInf = (0, 0)"
| "float_rank (Num r) = (1, r)"
| "float_rank PosInf = (2, 0)"
| "float_rank NaN = (3, 0)"

definition float_le :: "pyfloat \<Rightarrow> pyfloat \<Rightarrow> bool" where
  "float_le a b = (a \<noteq> NaN \<and> b \<noteq> NaN \<and> float_rank a \<le> float_rank b)"

datatype pyval =
    PNone
  | PBool bool
  | PInt int
  | PFloat pyfloat
  | PStr string
  | PList "pyval list"
  | PDict "(string \<times> pyval) list"

type_synonym pydict = "(string \<times> pyval) list"

datatype exc_type = ValueError | TypeError | KeyError | AttributeError | OtherException

text \<open>A raised exception: its class and the text \<^verbatim>\<open>str(e)\<close> gives.\<close>

datatype pyerr = Raised exc_type string

fun err_str :: "pyerr \<Rightarrow> string" where
  "err_str (Raised c msg) = msg"

text \<open>Truthiness, as \<^verbatim>\<open>if v:\<close>, \<^verbatim>\<open>not v\<close> and \<^verbatim>\<open>a or b\<close> test it.\<close>

fun truthy :: "pyval \<Rightarrow> bool" where
  "truthy PNone = False"
| "truthy (PBool b) = b"
| "truthy (PInt i) = (i \<noteq> 0)"
| "truthy (PFloat f) = (f \<noteq> Num 0)"
| "truthy (PStr s) = (s \<noteq> [])"
| "truthy (PList xs) = (xs \<noteq> [])"
| "truthy (PDict kvs) = (kvs \<noteq> [])"

text \<open>\<^verbatim>\<open>d.get(k)\<close> and \<^verbatim>\<open>d.get(k, default)\<close>.\<close>

definition dget :: "pydict \<Rightarrow> string \<Rightarrow> pyval" where
  "dget d k = (case map_of d k of None \<Rightarrow> PNone | Some v \<Rightarrow> v)"

definition dget_default :: "pydict \<Rightarrow> string \<Rightarrow> pyval \<Rightarrow> pyval" where
  "dget_default d k dflt = (case map_of d k of None \<Rightarrow> dflt | Some v \<Rightarrow> v)"

text \<open>\<^verbatim>\<open>d[k]\<close> raises KeyError on a missing key; \<^verbatim>\<open>str(e)\<close> is the quoted key.\<close>

definition dindex :: "pydict \<Rightarrow> string \<Rightarrow> pyerr + pyval" where
  "dindex d k = (case map_of d k of
       None \<Rightarrow> Inl (Raised KeyError ([CHR 0x27] @ k @ [CHR 0x27]))
     | Some v \<Rightarrow> Inr v)"

text \<open>\<^verbatim>\<open>a or b\<close>.\<close>

definition py_or :: "pyval \<Rightarrow> pyval \<Rightarrow> pyval" where
  "py_or a b = (if truthy a then a else b)"

text \<open>
  Calling a method on a value whose type has none raises AttributeError, with the text
  \<^verbatim>\<open>'NoneType' object has no attribute 'get'\<close>.
\<close>

fun type_name :: "pyval \<Rightarrow> string" where
  "type_name PNone = ''NoneType''"
| "type_name (PBool b) = ''bool''"
| "type_name (PInt i) = ''int''"
| "type_name (PFloat r) = ''float''"
| "type_name (PStr s) = ''str''"
| "type_name (PList xs) = ''list''"
| "type_name (PDict kvs) = ''dict''"

definition no_attribute :: "pyval \<Rightarrow> string \<Rightarrow> pyerr" where
  "no_attribute v attr =
     Raised AttributeError
       ([CHR 0x27] @ type_name v @ [CHR 0x27] @ '' object has no attribute ''
        @ [CHR 0x27] @ attr @ [CHR 0x27])"

subsection \<open>String methods\<close>

text \<open>
  A character is a code point below 256, so that a string is Latin-1 text; text beyond
  that is outside the model. On these code points \<^verbatim>\<open>lower\<close> maps A to Z and the accented
  capitals onto their small letters, and \<^verbatim>\<open>strip\<close> removes the twelve white-space
  characters at both ends.
\<close>

definition latin1_upper :: string where
  "latin1_upper = [
        CHR 0xC0, CHR 0xC1, CHR 0xC2, CHR 0xC3, CHR 0xC4, CHR 0xC5, CHR 0xC6, CHR 0xC7,
        CHR 0xC8, CHR 0xC9, CHR 0xCA, CHR 0xCB, CHR 0xCC, CHR 0xCD, CHR 0xCE, CHR 0xCF,
        CHR 0xD0, CHR 0xD1, CHR 0xD2, CHR 0xD3, CHR 0xD4, CHR 0xD5, CHR 0xD6, CHR 0xD8,
        CHR 0xD9, CHR 0xDA, CHR 0xDB, CHR 0xDC, CHR 0xDD, CHR 0xDE]"

definition latin1_lower :: string where
  "latin1_lower = [
        CHR 0xE0, CHR 0xE1, CHR 0xE2, CHR 0xE3, CHR 0xE4, CHR 0xE5, CHR 0xE6, CHR 0xE7,
        CHR 0xE8, CHR 0xE9, CHR 0xEA, CHR 0xEB, CHR 0xEC, CHR 0xED, CHR 0xEE, CHR 0xEF,
        CHR 0xF0, CHR 0xF1, CHR 0xF2, CHR 0xF3, CHR 0xF4, CHR 0xF5, CHR 0xF6, CHR 0xF8,
        CHR 0xF9, CHR 0xFA, CHR 0xFB, CHR 0xFC, CHR 0xFD, CHR 0xFE]"

definition lower_char :: "char \<Rightarrow> char" where
  "lower_char c =
     (case map_of (zip (''ABCDEFGHIJKLMNOPQRSTUVWXYZ'' @ latin1_upper)
                       (''abcdefghijklmnopqrstuvwxyz'' @ latin1_lower)) c of
        None \<Rightarrow> c
      | Some l \<Rightarrow> l)"

definition py_lower :: "string \<Rightarrow> string" where
  "py_lower s = map lower_char s"

definition is_space :: "char \<Rightarrow> bool" where
  "is_space c = (c \<in> set [CHR 0x20, CHR 0x09, CHR 0x0A, CHR 0x0B, CHR 0x0C, CHR 0x0D,
                           CHR 0x1C, CHR 0x1D, CHR 0x1E, CHR 0x1F, CHR 0x85, CHR 0xA0])"

definition py_strip :: "string \<Rightarrow> string" where
  "py_strip s = rev (dropWhile is_space (rev (dropWhile is_space s)))"

text \<open>\<^verbatim>\<open>s.replace(old, "")\<close> for a non-empty \<open>old\<close>: every occurrence, left to right.\<close>

function remove_all :: "string \<Rightarrow> string \<Rightarrow> string" where
  "remove_all old [] = []"
| "remove_all old (c # cs) =
     (if old \<noteq> [] \<and> prefix old (c # cs)
      then remove_all old (drop (length old) (c # cs))
      else c # remove_all old cs)"
  by pat_completeness auto
termination
  by (relation "measure (\<lambda>(old, s). length s)") auto

text \<open>\<^verbatim>\<open>keyword in text\<close> on strings, and \<^verbatim>\<open>any(keyword in text for keyword in keywords)\<close>.\<close>

definition any_keyword_in :: "string list \<Rightarrow> string \<Rightarrow> bool" where
  "any_keyword_in keywords text = list_ex (\<lambda>keyword. sublist keyword text) keywords"

section \<open>The collaborators\<close>

text \<open>
  Everything the pipeline calls that is not in the file itself: the built-ins
  \<^verbatim>\<open>float\<close>, \<^verbatim>\<open>json.loads\<close>, string formatting and \<^verbatim>\<open>uuid.uuid4\<close>, float arithmetic,
  the language model, and the operations of the document store. Each is a field of the
  environment of one run: a call that can raise returns a sum, \<open>Inl\<close> the exception. The
  theorems below hold for every environment.

  Float arithmetic: \<open>float_sub\<close> and \<open>float_add\<close> are \<^verbatim>\<open>a - b\<close> and \<^verbatim>\<open>a + b\<close>, which never
  raise; \<open>float_pow2\<close> is \<^verbatim>\<open>a ** 2\<close>, which raises OverflowError when the square is out of
  range; \<open>math_sqrt\<close> is \<^verbatim>\<open>math.sqrt\<close>, which raises ValueError below zero.

  \<open>sort_with_nan\<close> is what \<^verbatim>\<open>list.sort\<close> leaves of a list some of whose keys are NaN: the
  comparisons are then not an order, and the arrangement depends on the run of the sorting
  algorithm.
\<close>

record env =
  py_float :: "pyval \<Rightarrow> pyerr + pyfloat"
  float_sub :: "pyfloat \<Rightarrow> pyfloat \<Rightarrow> pyfloat"
  float_add :: "pyfloat \<Rightarrow> pyfloat \<Rightarrow> pyfloat"
  float_pow2 :: "pyfloat \<Rightarrow> pyerr + pyfloat"
  math_sqrt :: "pyfloat \<Rightarrow> pyerr + pyfloat"
  sort_with_nan :: "pydict list \<Rightarrow> pydict list"
  py_format :: "pyval \<Rightarrow> string"
  json_loads :: "string \<Rightarrow> pyerr + pyval"
  uuid4 :: "string"
  gemini_invoke :: "pyerr + string"
  get_disaster_document :: "string \<Rightarrow> pyerr + pydict option"
  list_resources_for_disaster :: "string \<Rightarrow> pyerr + pydict list"
  list_tasks_by_user_and_disaster :: "string \<Rightarrow> string \<Rightarrow> pyerr + pydict list"
  delete_document :: "pyval \<Rightarrow> pyerr + unit"
  save_task_document :: "pydict \<Rightarrow> pyerr + unit"
  delete_user_request_document :: "string \<Rightarrow> pyerr + unit"
  save_user_request_document :: "string \<Rightarrow> pydict \<Rightarrow> pyerr + unit"

text \<open>
  The shared state, \<^verbatim>\<open>EmergencyRequestState\<close>. Its key \<^verbatim>\<open>help\<close> is the field
  \<open>help_needed\<close> here, the name the Task Synthesizer reads it into.
\<close>

record state =
  disaster_id :: string
  user_id :: string
  help_needed :: string
  urgency_type :: string
  latitude :: string
  longitude :: string
  emergency_type :: pyval
  nearby_resources :: "pydict list"
  generated_task :: pydict
  user_request_data :: pydict

section \<open>Context Resolver\<close>

text \<open>
  \<^verbatim>\<open>fetch_disaster_type\<close>: any exception of the lookup, also the AttributeError of
  \<^verbatim>\<open>document.get\<close> on a lookup that returned None, is raised again as a ValueError.
\<close>

definition disaster_not_found :: "pyerr \<Rightarrow> pyerr" where
  "disaster_not_found e = Raised ValueError (''Disaster data not found: '' @ err_str e)"

definition fetch_disaster_type :: "env \<Rightarrow> state \<Rightarrow> pyerr + state" where
  "fetch_disaster_type env st =
     (case get_disaster_document env (disaster_id st) of
        Inl e \<Rightarrow> Inl (disaster_not_found e)
      | Inr None \<Rightarrow> Inl (disaster_not_found (no_attribute PNone ''get''))
      | Inr (Some document) \<Rightarrow>
          Inr (st\<lparr>emergency_type :=
                    dget_default document ''emergency_type'' (PStr ''general emergency'')\<rparr>))"

section \<open>Resource Ranker\<close>

text \<open>
  Lines 52 to 54:
  \<^verbatim>\<open>math.sqrt((user_lat - resource_lat) ** 2 + (user_lon - resource_lon) ** 2)\<close>,
  evaluated left to right.
\<close>

definition distance_to ::
  "env \<Rightarrow> pyfloat \<Rightarrow> pyfloat \<Rightarrow> pyfloat \<Rightarrow> pyfloat \<Rightarrow> pyerr + pyfloat" where
  "distance_to env user_lat user_lon resource_lat resource_lon =
     (case float_pow2 env (float_sub env user_lat resource_lat) of
        Inl e \<Rightarrow> Inl e
      | Inr lat_square \<Rightarrow>
     (case float_pow2 env (float_sub env user_lon resource_lon) of
        Inl e \<Rightarrow> Inl e
      | Inr lon_square \<Rightarrow> math_sqrt env (float_add env lat_square lon_square)))"

text \<open>\<^verbatim>\<open>{**doc, "distance": distance, "resource_id": doc["$id"]}\<close>\<close>

definition resource_data :: "pydict \<Rightarrow> pyfloat \<Rightarrow> pyval \<Rightarrow> pydict" where
  "resource_data doc distance rid =
     AList.update ''resource_id'' rid (AList.update ''distance'' (PFloat distance) doc)"

text \<open>The body of the \<^verbatim>\<open>for doc in documents\<close> loop, appending to \<open>acc\<close>.\<close>

fun rank_loop ::
  "env \<Rightarrow> pyfloat \<Rightarrow> pyfloat \<Rightarrow> pydict list \<Rightarrow> pydict list \<Rightarrow> pyerr + pydict list" where
  "rank_loop env user_lat user_lon [] acc = Inr acc"
| "rank_loop env user_lat user_lon (doc # documents) acc =
     (if truthy (dget doc ''latitude'') \<and> truthy (dget doc ''longitude'') then
        (case py_float env (dget doc ''latitude'') of
           Inl e \<Rightarrow> Inl e
         | Inr resource_lat \<Rightarrow>
        (case py_float env (dget doc ''longitude'') of
           Inl e \<Rightarrow> Inl e
         | Inr resource_lon \<Rightarrow>
        (case distance_to env user_lat user_lon resource_lat resource_lon of
           Inl e \<Rightarrow> Inl e
         | Inr distance \<Rightarrow>
        (case dindex doc ''$id'' of
           Inl e \<Rightarrow> Inl e
         | Inr rid \<Rightarrow>
             rank_loop env user_lat user_lon documents
               (acc @ [resource_data doc distance rid])))))
      else rank_loop env user_lat user_lon documents acc)"

text \<open>
  The sort key \<^verbatim>\<open>x.get("distance", float("inf"))\<close>: the stored float, and infinity for an
  entry without one. The loop stores a float in every entry it builds, so no other value is
  ever compared.
\<close>

definition distance_key :: "pydict \<Rightarrow> pyfloat" where
  "distance_key x = (case map_of x ''distance'' of
       Some (PFloat d) \<Rightarrow> d
     | _ \<Rightarrow> PosInf)"

text \<open>
  \<^verbatim>\<open>nearby_resources.sort(key=...)\<close>. \<^verbatim>\<open>list.sort\<close> is a stable sort, and so is
  \<open>sort_key\<close>: when no key is NaN the keys are linearly ordered and the two give the same
  list. With a NaN key the outcome is the collaborator's; \<^verbatim>\<open>list.sort\<close> only rearranges,
  so an outcome that is not a rearrangement of the list is not taken.
\<close>

definition list_sort_by_distance :: "env \<Rightarrow> pydict list \<Rightarrow> pydict list" where
  "list_sort_by_distance env xs =
     (if list_ex (\<lambda>x. distance_key x = NaN) xs
      then (let ys = sort_with_nan env xs in if mset ys = mset xs then ys else xs)
      else sort_key (\<lambda>x. float_rank (distance_key x)) xs)"

text \<open>Lines 44 to 56: the listing, the requester's coordinates and the loop.\<close>

definition collect_nearby_resources :: "env \<Rightarrow> state \<Rightarrow> pyerr + pydict list" where
  "collect_nearby_resources env st =
     (case list_resources_for_disaster env (disaster_id st) of
        Inl e \<Rightarrow> Inl e
      | Inr documents \<Rightarrow>
     (case py_float env (PStr (latitude st)) of
        Inl e \<Rightarrow> Inl e
      | Inr user_lat \<Rightarrow>
     (case py_float env (PStr (longitude st)) of
        Inl e \<Rightarrow> Inl e
      | Inr user_lon \<Rightarrow> rank_loop env user_lat user_lon documents [])))"

text \<open>The \<^verbatim>\<open>try\<close> block.\<close>

definition fetch_nearby_resources_try :: "env \<Rightarrow> state \<Rightarrow> pyerr + state" where
  "fetch_nearby_resources_try env st =
     (case collect_nearby_resources env st of
        Inl e \<Rightarrow> Inl e
      | Inr nearby \<Rightarrow>
          Inr (st\<lparr>nearby_resources := take 5 (list_sort_by_distance env nearby)\<rparr>))"

definition fetch_nearby_resources :: "env \<Rightarrow> state \<Rightarrow> state" where
  "fetch_nearby_resources env st =
     (case fetch_nearby_resources_try env st of
        Inl e \<Rightarrow> st\<lparr>nearby_resources := []\<rparr>
      | Inr st' \<Rightarrow> st')"

section \<open>Task Synthesizer\<close>

text \<open>Lines 70 and 71: the urgency label \<^verbatim>\<open>moderate\<close> is read as \<^verbatim>\<open>medium\<close>.\<close>

definition normalize_urgency :: "string \<Rightarrow> string" where
  "normalize_urgency urgency = (if urgency = ''moderate'' then ''medium'' else urgency)"

subsection \<open>The primary path\<close>

text \<open>
  The prompt is built from f-strings over the state and \<^verbatim>\<open>get\<close> with defaults on the
  ranked resources; none of it can raise, and the reply of the language model is an input
  of the run (\<open>gemini_invoke\<close>), so the prompt text is not part of the model.
\<close>

definition strip_fence :: "string \<Rightarrow> string" where
  "strip_fence ai_response =
     (if prefix ''```json'' ai_response
      then py_strip (remove_all ''```'' (remove_all ''```json'' ai_response))
      else if prefix ''```'' ai_response
      then py_strip (remove_all ''```'' ai_response)
      else ai_response)"

text \<open>Lines 139 to 145.\<close>

definition valid_roles :: "pyval \<Rightarrow> pyval list" where
  "valid_roles ai_selected_role =
     (if ai_selected_role = PStr ''both'' then [PStr ''vol'', PStr ''fr'']
      else if ai_selected_role \<in> set [PStr ''vol'', PStr ''fr''] then [ai_selected_role]
      else [PStr ''vol''])"

text \<open>
  The \<^verbatim>\<open>try\<close> block, lines 130 to 167, up to the task it builds. \<^verbatim>\<open>ai_data.get\<close> needs a
  dictionary and \<^verbatim>\<open>.strip()\<close> a string; anything else raises AttributeError.
\<close>

definition primary_task :: "env \<Rightarrow> state \<Rightarrow> string \<Rightarrow> pyerr + pydict" where
  "primary_task env st urgency =
     (case gemini_invoke env of
        Inl e \<Rightarrow> Inl e
      | Inr content \<Rightarrow>
     (case json_loads env (strip_fence (py_strip content)) of
        Inl e \<Rightarrow> Inl e
      | Inr (PDict ai_data) \<Rightarrow>
         (case dget_default ai_data ''description'' (PStr []) of
            PStr d \<Rightarrow>
              (let ai_generated_description = py_strip d;
                   ai_selected_role = dget_default ai_data ''roles'' (PStr ''vol'')
               in if ai_generated_description = []
                  then Inl (Raised ValueError ''Empty description from Gemini'')
                  else
                   (case py_float env (PStr (latitude st)) of
                      Inl e \<Rightarrow> Inl e
                    | Inr lat \<Rightarrow>
                   (case py_float env (PStr (longitude st)) of
                      Inl e \<Rightarrow> Inl e
                    | Inr lon \<Rightarrow>
                       Inr [(''task_id'', PStr (uuid4 env)),
                            (''description'', PStr ai_generated_description),
                            (''status'', PStr ''pending''),
                            (''action_done_by'', PStr []),
                            (''roles'', PList (valid_roles ai_selected_role)),
                            (''emergency_type'', emergency_type st),
                            (''urgency_level'', PStr urgency),
                            (''latitude'', PFloat lat),
                            (''longitude'', PFloat lon),
                            (''help_needed'', PStr (help_needed st)),
                            (''user_id'', PStr (user_id st)),
                            (''disaster_id'', PStr (disaster_id st)),
                            (''is_fallback'', PBool False),
                            (''first_Task'', PBool False),
                            (''ai_reasoning'',
                               dget_default ai_data ''reasoning''
                                 (PStr ''AI-determined role assignment'')),
                            (''resource_utilization'',
                               dget_default ai_data ''resource_utilization'' (PStr ''none''))])))
          | v \<Rightarrow> Inl (no_attribute v ''strip''))
      | Inr v \<Rightarrow> Inl (no_attribute v ''get'')))"

subsection \<open>The fallback classifier\<close>

definition inappropriate_keywords :: "string list" where
  "inappropriate_keywords =
     [''sexy'', ''kiss'', ''love'', ''haha'', ''lol'', ''prank'', ''joke'', ''fake'']"

definition food_keywords :: "string list" where
  "food_keywords =
     [''food'', ''hungry'', ''hunger'', ''starving'', ''eat'', ''meal'', ''water'',
      ''thirsty'', ''drink'']"

definition medical_keywords :: "string list" where
  "medical_keywords =
     [''medical'', ''injury'', ''hurt'', ''bleeding'', ''unconscious'', ''rescue'',
      ''trapped'', ''fire'', ''pain'', ''sick'', ''ill'']"

definition mass_keywords :: "string list" where
  "mass_keywords =
     [''many people'', ''multiple people'', ''crowd'', ''group'', ''families'', ''everyone'']"

definition is_inappropriate :: "string \<Rightarrow> bool" where
  "is_inappropriate help_lower = any_keyword_in inappropriate_keywords help_lower"

definition needs_food :: "string \<Rightarrow> bool" where
  "needs_food help_lower = any_keyword_in food_keywords help_lower"

definition needs_medical :: "string \<Rightarrow> bool" where
  "needs_medical help_lower = any_keyword_in medical_keywords help_lower"

definition mass_casualty :: "string \<Rightarrow> bool" where
  "mass_casualty help_lower = any_keyword_in mass_keywords help_lower"

definition verification_description :: string where
  "verification_description =
     ''Verify request details and assess if legitimate emergency assistance is needed.''"

text \<open>\<^verbatim>\<open>at location ({latitude}, {longitude}).\<close>\<close>

definition at_location :: "string \<Rightarrow> string \<Rightarrow> string" where
  "at_location lat lon = '' at location ('' @ lat @ '', '' @ lon @ '').''"

text \<open>An f-string field: a string stands for itself, any other value is formatted.\<close>

definition format_field :: "env \<Rightarrow> pyval \<Rightarrow> string" where
  "format_field env v = (case v of PStr s \<Rightarrow> s | _ \<Rightarrow> py_format env v)"

text \<open>
  Lines 170 to 246 without \<^verbatim>\<open>emergency_lower\<close>: the description and the roles the
  \<^verbatim>\<open>except\<close> branch decides on.
\<close>

definition fallback_classifier ::
  "env \<Rightarrow> string \<Rightarrow> string \<Rightarrow> string \<Rightarrow> string \<Rightarrow> pydict list \<Rightarrow> string \<times> pyval list" where
  "fallback_classifier env help urgency lat lon nearby =
     (let help_lower = py_lower help in
      if is_inappropriate help_lower
      then (verification_description, [PStr ''vol''])
      else
        (let (description, roles) =
           (if mass_casualty help_lower \<and> (needs_medical help_lower \<or> urgency = ''high'')
            then (''Coordinate emergency response for multiple people needing '' @ help
                    @ at_location lat lon,
                  [PStr ''vol'', PStr ''fr''])
            else if needs_medical help_lower \<or> urgency = ''high''
            then (''Provide immediate medical assistance to person needing '' @ help
                    @ at_location lat lon,
                  [PStr ''fr''])
            else if needs_food help_lower
            then (''Deliver food and water supplies to person'' @ at_location lat lon,
                  [PStr ''vol''])
            else (''Assist person needing '' @ help @ at_location lat lon,
                  [PStr ''vol'']))
         in case nearby of
              [] \<Rightarrow> (description, roles)
            | closest_resource # rest \<Rightarrow>
                (description @ '' Coordinate with ''
                   @ format_field env
                       (dget_default closest_resource ''name'' (PStr ''nearby resource''))
                   @ '' for assistance.'',
                 roles)))"

text \<open>
  The \<^verbatim>\<open>except\<close> branch, lines 168 to 266, up to the task it builds:
  \<^verbatim>\<open>emergency_type.lower()\<close> needs a string, and the two \<^verbatim>\<open>float\<close> calls of the task
  dictionary are not guarded.
\<close>

definition fallback_task :: "env \<Rightarrow> state \<Rightarrow> string \<Rightarrow> pyerr + pydict" where
  "fallback_task env st urgency =
     (case emergency_type st of
        PStr emergency \<Rightarrow>
          (let emergency_lower = py_lower emergency;
               (description, roles) =
                  fallback_classifier env (help_needed st) urgency (latitude st) (longitude st)
                    (nearby_resources st)
           in case py_float env (PStr (latitude st)) of
                Inl e \<Rightarrow> Inl e
              | Inr lat \<Rightarrow>
             (case py_float env (PStr (longitude st)) of
                Inl e \<Rightarrow> Inl e
              | Inr lon \<Rightarrow>
                 Inr [(''task_id'', PStr (uuid4 env)),
                      (''description'', PStr description),
                      (''status'', PStr ''pending''),
                      (''action_done_by'', PStr []),
                      (''roles'', PList roles),
                      (''emergency_type'', emergency_type st),
                      (''urgency_level'', PStr urgency),
                      (''latitude'', PFloat lat),
                      (''longitude'', PFloat lon),
                      (''help_needed'', PStr (help_needed st)),
                      (''user_id'', PStr (user_id st)),
                      (''disaster_id'', PStr (disaster_id st)),
                      (''first_Task'', PBool False),
                      (''is_fallback'', PBool True),
                      (''ai_reasoning'',
                         PStr ''Intelligent fallback assignment based on context analysis'')]))
      | v \<Rightarrow> Inl (no_attribute v ''lower''))"

definition generate_emergency_task :: "env \<Rightarrow> state \<Rightarrow> pyerr + state" where
  "generate_emergency_task env st =
     (let urgency = normalize_urgency (urgency_type st) in
      case primary_task env st urgency of
        Inr task \<Rightarrow> Inr (st\<lparr>generated_task := task\<rparr>)
      | Inl e \<Rightarrow>
         (case fallback_task env st urgency of
            Inl e' \<Rightarrow> Inl e'
          | Inr task \<Rightarrow> Inr (st\<lparr>generated_task := task\<rparr>)))"

section \<open>Task Persister and Request Recorder\<close>

text \<open>
  The two stages only call the store and swallow what it raises. A run is observed through
  the calls it makes that change the store, in order.
\<close>

datatype store_call =
    DeleteDocument pyval
  | SaveTaskDocument pydict
  | DeleteUserRequestDocument string
  | SaveUserRequestDocument string pydict

text \<open>
  The loop of lines 277 to 288. The \<^verbatim>\<open>try\<close> around the delete passes on any exception,
  so both outcomes of the call go on with the next task.
\<close>

fun delete_existing :: "env \<Rightarrow> pydict list \<Rightarrow> store_call list" where
  "delete_existing env [] = []"
| "delete_existing env (task # existing_tasks) =
     (let task_id = py_or (dget task ''$id'') (dget task ''task_id'') in
      if truthy task_id \<and> \<not> truthy (dget_default task ''first_Task'' (PBool False))
      then (case delete_document env task_id of
              Inl e \<Rightarrow> DeleteDocument task_id # delete_existing env existing_tasks
            | Inr u \<Rightarrow> DeleteDocument task_id # delete_existing env existing_tasks)
      else delete_existing env existing_tasks)"

definition save_task_to_db :: "env \<Rightarrow> state \<Rightarrow> store_call list \<times> state" where
  "save_task_to_db env st =
     (let deletes =
            (case list_tasks_by_user_and_disaster env (user_id st) (disaster_id st) of
               Inl e \<Rightarrow> []
             | Inr existing_tasks \<Rightarrow> delete_existing env existing_tasks);
          saves =
            (case save_task_document env (generated_task st) of
               Inl e \<Rightarrow> [SaveTaskDocument (generated_task st)]
             | Inr u \<Rightarrow> [SaveTaskDocument (generated_task st)])
      in (deletes @ saves, st))"

text \<open>
  \<^verbatim>\<open>save_user_request\<close>: the two subscripts of the generated task are outside the
  \<^verbatim>\<open>try\<close> and raise KeyError on a task without them; a failed delete is passed on, a
  failed save too.
\<close>

definition save_user_request :: "env \<Rightarrow> state \<Rightarrow> store_call list \<times> (pyerr + state)" where
  "save_user_request env st =
     (case dindex (generated_task st) ''task_id'' of
        Inl e \<Rightarrow> ([], Inl e)
      | Inr task_id \<Rightarrow>
     (case dindex (generated_task st) ''roles'' of
        Inl e \<Rightarrow> ([], Inl e)
      | Inr roles \<Rightarrow>
         (let data =
                [(''disaster_id'', PStr (disaster_id st)),
                 (''help'', PStr (help_needed st)),
                 (''urgency_type'', PStr (urgency_type st)),
                 (''latitude'', PStr (latitude st)),
                 (''longitude'', PStr (longitude st)),
                 (''emergency_type'', emergency_type st),
                 (''task_id'', task_id),
                 (''status'', PStr ''submitted''),
                 (''feedback'', PNone),
                 (''assigned_roles'', roles),
                 (''ai_reasoning'',
                    dget_default (generated_task st) ''ai_reasoning''
                      (PStr ''No reasoning provided'')),
                 (''userId'', PStr (user_id st))];
              calls =
                (case delete_user_request_document env (user_id st) of
                   Inl e \<Rightarrow> [DeleteUserRequestDocument (user_id st)]
                 | Inr u \<Rightarrow> [DeleteUserRequestDocument (user_id st)])
                @ (case save_user_request_document env (user_id st) data of
                     Inl e \<Rightarrow> [SaveUserRequestDocument (user_id st) data]
                   | Inr u \<Rightarrow> [SaveUserRequestDocument (user_id st) data])
          in (calls, Inr (st\<lparr>user_request_data := data\<rparr>)))))"

section \<open>The pipeline\<close>

text \<open>
  The graph is the chain of the five stages; an exception of a stage ends the run. The
  result is the list of store calls made and the final state or the exception.
\<close>

definition initial_state ::
  "string \<Rightarrow> string \<Rightarrow> string \<Rightarrow> string \<Rightarrow> string \<Rightarrow> string \<Rightarrow> state" where
  "initial_state did uid help urgency lat lon =
     \<lparr>disaster_id = did, user_id = uid, help_needed = help, urgency_type = urgency,
      latitude = lat, longitude = lon, emergency_type = PStr [],
      nearby_resources = [], generated_task = [], user_request_data = []\<rparr>"

definition run_graph :: "env \<Rightarrow> state \<Rightarrow> store_call list \<times> (pyerr + state)" where
  "run_graph env st0 =
     (case fetch_disaster_type env st0 of
        Inl e \<Rightarrow> ([], Inl e)
      | Inr st1 \<Rightarrow>
     (case generate_emergency_task env (fetch_nearby_resources env st1) of
        Inl e \<Rightarrow> ([], Inl e)
      | Inr st3 \<Rightarrow>
         (let (calls4, st4) = save_task_to_db env st3;
              (calls5, r) = save_user_request env st4
          in (calls4 @ calls5, r))))"

definition process_emergency_request ::
  "env \<Rightarrow> string \<Rightarrow> string \<Rightarrow> string \<Rightarrow> string \<Rightarrow> string \<Rightarrow> string
     \<Rightarrow> store_call list \<times> (pyerr + state)" where
  "process_emergency_request env did uid help urgency lat lon =
     run_graph env (initial_state did uid help urgency lat lon)"

section \<open>Sample runs\<close>

text \<open>
  Concrete inputs for the examples below: a \<^verbatim>\<open>float\<close> and float arithmetic that agree
  with Python on the values used (small numbers whose results are exact, and NaN), a store,
  and a language model that is unavailable. \<^verbatim>\<open>list.sort\<close> leaves the keys
  \<^verbatim>\<open>[5.0, nan, 3.0]\<close> as they are, which is all \<open>sort_with_nan\<close> is used for here.
\<close>

definition sample_float :: "pyval \<Rightarrow> pyerr + pyfloat" where
  "sample_float v =
     (case v of
        PStr s \<Rightarrow>
          (case map_of [(''12.0'', Num 12), (''77.0'', Num 77), (''16.0'', Num 16),
                        (''80.0'', Num 80), (''nan'', NaN)] s of
             Some f \<Rightarrow> Inr f
           | None \<Rightarrow>
               Inl (Raised ValueError
                      (''could not convert string to float: '' @ [CHR 0x27] @ s @ [CHR 0x27])))
      | PFloat f \<Rightarrow> Inr f
      | PInt i \<Rightarrow> Inr (Num (of_int i))
      | PBool b \<Rightarrow> Inr (Num (if b then 1 else 0))
      | _ \<Rightarrow> Inl (Raised TypeError ''float() argument must be a string or a real number''))"

fun sample_sub :: "pyfloat \<Rightarrow> pyfloat \<Rightarrow> pyfloat" where
  "sample_sub (Num x) (Num y) = Num (x - y)"
| "sample_sub NaN b = NaN"
| "sample_sub a NaN = NaN"
| "sample_sub PosInf PosInf = NaN"
| "sample_sub NegInf NegInf = NaN"
| "sample_sub PosInf b = PosInf"
| "sample_sub NegInf b = NegInf"
| "sample_sub (Num x) PosInf = NegInf"
| "sample_sub (Num x) NegInf = PosInf"

fun sample_add :: "pyfloat \<Rightarrow> pyfloat \<Rightarrow> pyfloat" where
  "sample_add (Num x) (Num y) = Num (x + y)"
| "sample_add NaN b = NaN"
| "sample_add a NaN = NaN"
| "sample_add PosInf NegInf = NaN"
| "sample_add NegInf PosInf = NaN"
| "sample_add PosInf b = PosInf"
| "sample_add NegInf b = NegInf"
| "sample_add (Num x) b = b"

fun sample_pow2 :: "pyfloat \<Rightarrow> pyerr + pyfloat" where
  "sample_pow2 (Num x) = Inr (Num (x * x))"
| "sample_pow2 NaN = Inr NaN"
| "sample_pow2 a = Inr PosInf"

fun sample_sqrt :: "pyfloat \<Rightarrow> pyerr + pyfloat" where
  "sample_sqrt (Num x) =
     (if x < 0 then Inl (Raised ValueError ''math domain error'') else Inr (Num (sqrt x)))"
| "sample_sqrt NaN = Inr NaN"
| "sample_sqrt PosInf = Inr PosInf"
| "sample_sqrt NegInf = Inl (Raised ValueError ''math domain error'')"

definition shelter_near :: pydict where
  "shelter_near = [(''$id'', PStr ''r1''), (''name'', PStr ''Shelter A''),
                   (''latitude'', PFloat (Num 12)), (''longitude'', PStr ''80.0'')]"

definition depot_far :: pydict where
  "depot_far = [(''$id'', PStr ''r2''), (''name'', PStr ''Depot B''),
                (''latitude'', PStr ''16.0''), (''longitude'', PStr ''80.0'')]"

definition clinic_no_latitude :: pydict where
  "clinic_no_latitude = [(''$id'', PStr ''r3''), (''name'', PStr ''Clinic C''),
                         (''longitude'', PStr ''77.0'')]"

definition camp_malformed :: pydict where
  "camp_malformed = [(''$id'', PStr ''r4''), (''name'', PStr ''Camp D''),
                     (''latitude'', PStr ''north''), (''longitude'', PStr ''77.0'')]"

definition camp_nan :: pydict where
  "camp_nan = [(''$id'', PStr ''r5''), (''name'', PStr ''Camp E''),
               (''latitude'', PStr ''nan''), (''longitude'', PStr ''80.0'')]"

definition sample_env :: env where
  "sample_env =
     \<lparr>py_float = sample_float,
      float_sub = sample_sub,
      float_add = sample_add,
      float_pow2 = sample_pow2,
      math_sqrt = sample_sqrt,
      sort_with_nan = (\<lambda>xs. xs),
      py_format = (\<lambda>v. ''None''),
      json_loads = (\<lambda>s. Inl (Raised ValueError ''Expecting value'')),
      uuid4 = ''0b0e7a52-1111-4c1e-9d3a-5f2f6a7b8c9d'',
      gemini_invoke = Inl (Raised OtherException ''model unavailable''),
      get_disaster_document =
        (\<lambda>d. if d = ''d1'' then Inr (Some [(''emergency_type'', PStr ''flood'')])
             else Inl (Raised OtherException ''Document with the requested ID could not be found.'')),
      list_resources_for_disaster = (\<lambda>d. Inr []),
      list_tasks_by_user_and_disaster = (\<lambda>u d. Inr []),
      delete_document = (\<lambda>i. Inr ()),
      save_task_document = (\<lambda>t. Inr ()),
      delete_user_request_document = (\<lambda>u. Inr ()),
      save_user_request_document = (\<lambda>u d. Inr ())\<rparr>"

definition sample_state :: state where
  "sample_state =
     \<lparr>disaster_id = ''d1'', user_id = ''u1'', help_needed = ''Need food and water'',
      urgency_type = ''moderate'', latitude = ''12.0'', longitude = ''77.0'',
      emergency_type = PStr ''flood'', nearby_resources = [], generated_task = [],
      user_request_data = []\<rparr>"

definition stocked_env :: env where
  "stocked_env =
     sample_env\<lparr>list_resources_for_disaster :=
                   (\<lambda>d. Inr [depot_far, clinic_no_latitude, shelter_near])\<rparr>"

definition nan_env :: env where
  "nan_env =
     sample_env\<lparr>list_resources_for_disaster :=
                   (\<lambda>d. Inr [depot_far, camp_nan, shelter_near])\<rparr>"

definition malformed_env :: env where
  "malformed_env =
     sample_env\<lparr>list_resources_for_disaster :=
                   (\<lambda>d. Inr [shelter_near, camp_malformed, depot_far])\<rparr>"

definition unreachable_env :: env where
  "unreachable_env =
     sample_env\<lparr>list_resources_for_disaster :=
                   (\<lambda>d. Inl (Raised OtherException ''Server Error''))\<rparr>"

text \<open>
  The task of the fallback path for the request
  \<^verbatim>\<open>("d1", "u1", "Need food and water", "moderate", "12.0", "77.0")\<close> with no resources.
\<close>

definition sample_fallback_task :: pydict where
  "sample_fallback_task =
     [(''task_id'', PStr ''0b0e7a52-1111-4c1e-9d3a-5f2f6a7b8c9d''),
      (''description'',
         PStr ''Deliver food and water supplies to person at location (12.0, 77.0).''),
      (''status'', PStr ''pending''),
      (''action_done_by'', PStr []),
      (''roles'', PList [PStr ''vol'']),
      (''emergency_type'', PStr ''flood''),
      (''urgency_level'', PStr ''medium''),
      (''latitude'', PFloat (Num 12)),
      (''longitude'', PFloat (Num 77)),
      (''help_needed'', PStr ''Need food and water''),
      (''user_id'', PStr ''u1''),
      (''disaster_id'', PStr ''d1''),
      (''first_Task'', PBool False),
      (''is_fallback'', PBool True),
      (''ai_reasoning'', PStr ''Intelligent fallback assignment based on context analysis'')]"

definition bad_coordinate_state :: state where
  "bad_coordinate_state = sample_state\<lparr>latitude := ''abc''\<rparr>"

definition bad_coordinate_error :: pyerr where
  "bad_coordinate_error =
     Raised ValueError (''could not convert string to float: '' @ [CHR 0x27] @ ''abc'' @ [CHR 0x27])"

definition moved_state :: state where
  "moved_state = sample_state\<lparr>latitude := ''16.0''\<rparr>"

definition prank_state :: state where
  "prank_state =
     sample_state\<lparr>help_needed := ''Many people bleeding, no joke'', urgency_type := ''high''\<rparr>"

definition prank_fallback_task :: pydict where
  "prank_fallback_task =
     [(''task_id'', PStr ''0b0e7a52-1111-4c1e-9d3a-5f2f6a7b8c9d''),
      (''description'',
         PStr ''Verify request details and assess if legitimate emergency assistance is needed.''),
      (''status'', PStr ''pending''),
      (''action_done_by'', PStr []),
      (''roles'', PList [PStr ''vol'']),
      (''emergency_type'', PStr ''flood''),
      (''urgency_level'', PStr ''high''),
      (''latitude'', PFloat (Num 12)),
      (''longitude'', PFloat (Num 77)),
      (''help_needed'', PStr ''Many people bleeding, no joke''),
      (''user_id'', PStr ''u1''),
      (''disaster_id'', PStr ''d1''),
      (''first_Task'', PBool False),
      (''is_fallback'', PBool True),
      (''ai_reasoning'', PStr ''Intelligent fallback assignment based on context analysis'')]"

definition moved_fallback_task :: pydict where
  "moved_fallback_task =
     [(''task_id'', PStr ''7c9e6679-7425-40de-944b-e07fc1f90ae7''),
      (''description'',
         PStr ''Deliver food and water supplies to person at location (16.0, 77.0).''),
      (''status'', PStr ''pending''),
      (''action_done_by'', PStr []),
      (''roles'', PList [PStr ''vol'']),
      (''emergency_type'', PStr ''flood''),
      (''urgency_level'', PStr ''medium''),
      (''latitude'', PFloat (Num 16)),
      (''longitude'', PFloat (Num 77)),
      (''help_needed'', PStr ''Need food and water''),
      (''user_id'', PStr ''u1''),
      (''disaster_id'', PStr ''d1''),
      (''first_Task'', PBool False),
      (''is_fallback'', PBool True),
      (''ai_reasoning'', PStr ''Intelligent fallback assignment based on context analysis'')]"

definition second_env :: env where
  "second_env = sample_env\<lparr>uuid4 := ''7c9e6679-7425-40de-944b-e07fc1f90ae7''\<rparr>"

text \<open>
  A store that lists three earlier tasks of the user, refuses to delete the first of them
  and refuses to save.
\<close>

definition old_task :: pydict where
  "old_task = [(''$id'', PStr ''t1''), (''description'', PStr ''Deliver blankets''),
               (''first_Task'', PBool False)]"

definition seed_task :: pydict where
  "seed_task = [(''$id'', PStr ''t2''), (''description'', PStr ''Register at shelter''),
                (''first_Task'', PBool True)]"

definition legacy_task :: pydict where
  "legacy_task = [(''$id'', PStr ''t3''), (''description'', PStr ''Bring water'')]"

definition failing_store_env :: env where
  "failing_store_env =
     sample_env\<lparr>list_tasks_by_user_and_disaster :=
                   (\<lambda>u d. Inr [old_task, seed_task, legacy_task]),
                 delete_document :=
                   (\<lambda>i. if i = PStr ''t1'' then Inl (Raised OtherException ''Server Error'')
                         else Inr ()),
                 save_task_document := (\<lambda>t. Inl (Raised OtherException ''Server Error''))\<rparr>"

definition task_state :: state where
  "task_state = sample_state\<lparr>generated_task := sample_fallback_task\<rparr>"

text \<open>
  A language model that answers with fenced JSON asking for both roles, and the
  \<^verbatim>\<open>json.loads\<close> of that answer.
\<close>

definition quoted :: "string \<Rightarrow> string" where
  "quoted s = [CHR 0x22] @ s @ [CHR 0x22]"

definition reply_json :: string where
  "reply_json =
     ''{'' @ quoted ''description'' @ '': '' @ quoted ''Set up a field kitchen for the camp''
       @ '', '' @ quoted ''roles'' @ '': '' @ quoted ''both'' @ ''}''"

definition fenced_reply :: string where
  "fenced_reply = ''```json'' @ [CHR 0x0A] @ reply_json @ [CHR 0x0A] @ ''```''"

definition replying_env :: env where
  "replying_env =
     sample_env\<lparr>gemini_invoke := Inr fenced_reply,
                 json_loads :=
                   (\<lambda>s. if s = reply_json
                        then Inr (PDict [(''description'',
                                            PStr ''Set up a field kitchen for the camp''),
                                         (''roles'', PStr ''both'')])
                        else Inl (Raised ValueError ''Expecting value''))\<rparr>"

definition primary_sample_task :: pydict where
  "primary_sample_task =
     [(''task_id'', PStr ''0b0e7a52-1111-4c1e-9d3a-5f2f6a7b8c9d''),
      (''description'', PStr ''Set up a field kitchen for the camp''),
      (''status'', PStr ''pending''),
      (''action_done_by'', PStr []),
      (''roles'', PList [PStr ''vol'', PStr ''fr'']),
      (''emergency_type'', PStr ''flood''),
      (''urgency_level'', PStr ''medium''),
      (''latitude'', PFloat (Num 12)),
      (''longitude'', PFloat (Num 77)),
      (''help_needed'', PStr ''Need food and water''),
      (''user_id'', PStr ''u1''),
      (''disaster_id'', PStr ''d1''),
      (''is_fallback'', PBool False),
      (''first_Task'', PBool False),
      (''ai_reasoning'', PStr ''AI-determined role assignment''),
      (''resource_utilization'', PStr ''none'')]"

section \<open>Properties of the Resource Ranker\<close>

lemma map_of_resource_data:
  "map_of (resource_data doc d rid) = (map_of doc)(''distance'' \<mapsto> PFloat d, ''resource_id'' \<mapsto> rid)"
  by (simp add: resource_data_def update_conv')

lemma distance_key_resource_data: "distance_key (resource_data doc d rid) = d"
  by (simp add: distance_key_def map_of_resource_data)

lemma truthy_dget_present: "truthy (dget doc k) \<Longrightarrow> map_of doc k \<noteq> None"
  by (cases "map_of doc k") (auto simp: dget_def)

lemma rank_loop_entries:
  "rank_loop env ulat ulon documents acc = Inr rs \<Longrightarrow>
   \<exists>new. rs = acc @ new \<and>
     (\<forall>r\<in>set new. \<exists>doc\<in>set documents. \<exists>rlat rlon distance rid.
         truthy (dget doc ''latitude'') \<and> truthy (dget doc ''longitude'') \<and>
         py_float env (dget doc ''latitude'') = Inr rlat \<and>
         py_float env (dget doc ''longitude'') = Inr rlon \<and>
         distance_to env ulat ulon rlat rlon = Inr distance \<and>
         dindex doc ''$id'' = Inr rid \<and>
         r = resource_data doc distance rid)"
proof (induction documents arbitrary: acc)
  case Nil
  then show ?case by simp
next
  case (Cons doc documents)
  show ?case
  proof (cases "truthy (dget doc ''latitude'') \<and> truthy (dget doc ''longitude'')")
    case False
    with Cons.prems have "rank_loop env ulat ulon documents acc = Inr rs" by auto
    from Cons.IH[OF this] show ?thesis by auto
  next
    case True
    with Cons.prems obtain rlat rlon distance rid where
      f: "py_float env (dget doc ''latitude'') = Inr rlat"
         "py_float env (dget doc ''longitude'') = Inr rlon"
         "distance_to env ulat ulon rlat rlon = Inr distance"
         "dindex doc ''$id'' = Inr rid"
      and r: "rank_loop env ulat ulon documents (acc @ [resource_data doc distance rid]) = Inr rs"
      by (auto split: sum.splits)
    from Cons.IH[OF r] obtain new where
      new: "rs = (acc @ [resource_data doc distance rid]) @ new"
        "\<forall>r\<in>set new. \<exists>doc\<in>set documents. \<exists>rlat rlon distance rid.
         truthy (dget doc ''latitude'') \<and> truthy (dget doc ''longitude'') \<and>
         py_float env (dget doc ''latitude'') = Inr rlat \<and>
         py_float env (dget doc ''longitude'') = Inr rlon \<and>
         distance_to env ulat ulon rlat rlon = Inr distance \<and>
         dindex doc ''$id'' = Inr rid \<and>
         r = resource_data doc distance rid"
      by blast
    show ?thesis
    proof (intro exI conjI ballI)
      show "rs = acc @ (resource_data doc distance rid # new)"
        using new(1) by simp
    next
      fix r assume "r \<in> set (resource_data doc distance rid # new)"
      then consider "r = resource_data doc distance rid" | "r \<in> set new"
        by auto
      then show "\<exists>doc\<in>set (doc # documents). \<exists>rlat rlon distance rid.
         truthy (dget doc ''latitude'') \<and> truthy (dget doc ''longitude'') \<and>
         py_float env (dget doc ''latitude'') = Inr rlat \<and>
         py_float env (dget doc ''longitude'') = Inr rlon \<and>
         distance_to env ulat ulon rlat rlon = Inr distance \<and>
         dindex doc ''$id'' = Inr rid \<and>
         r = resource_data doc distance rid"
      proof cases
        case 1
        with True f show ?thesis by auto
      next
        case 2
        with new(2) show ?thesis by fastforce
      qed
    qed
  qed
qed

lemma rank_loop_malformed:
  "doc \<in> set documents \<Longrightarrow> truthy (dget doc ''latitude'') \<Longrightarrow> truthy (dget doc ''longitude'') \<Longrightarrow>
   (\<exists>e. py_float env (dget doc ''latitude'') = Inl e) \<or> (\<exists>e. py_float env (dget doc ''longitude'') = Inl e) \<Longrightarrow>
   \<exists>e. rank_loop env ulat ulon documents acc = Inl e"
proof (induction documents arbitrary: acc)
  case Nil
  then show ?case by simp
next
  case (Cons d documents)
  show ?case
  proof (cases "d = doc")
    case True
    with Cons.prems show ?thesis by (auto split: sum.splits)
  next
    case False
    with Cons.prems have "doc \<in> set documents" by simp
    from Cons.IH[OF this Cons.prems(2,3,4)] show ?thesis
      by (auto split: sum.splits)
  qed
qed

lemma list_sort_by_distance_Nil [simp]: "list_sort_by_distance env [] = []"
  by (simp add: list_sort_by_distance_def)

lemma set_list_sort_by_distance: "set (list_sort_by_distance env xs) = set xs"
  by (auto simp: list_sort_by_distance_def Let_def dest: mset_eq_setD)

lemma length_list_sort_by_distance: "length (list_sort_by_distance env xs) = length xs"
  by (auto simp: list_sort_by_distance_def Let_def dest: mset_eq_length)

lemma float_le_of_rank:
  "sorted (map (\<lambda>x. float_rank (k x)) xs) \<Longrightarrow> \<forall>x\<in>set xs. k x \<noteq> NaN \<Longrightarrow>
   sorted_wrt float_le (map k xs)"
  by (induction xs) (auto simp: float_le_def)

lemma list_sort_by_distance_sorted:
  assumes "\<forall>x\<in>set xs. distance_key x \<noteq> NaN"
  shows "sorted_wrt float_le (map distance_key (take n (list_sort_by_distance env xs)))"
proof -
  have eq: "list_sort_by_distance env xs = sort_key (\<lambda>x. float_rank (distance_key x)) xs"
    using assms by (auto simp: list_sort_by_distance_def list_ex_iff)
  have s: "sorted (map (\<lambda>x. float_rank (distance_key x))
             (take n (sort_key (\<lambda>x. float_rank (distance_key x)) xs)))"
    by (simp add: take_map[symmetric] sorted_wrt_take)
  have "\<forall>x\<in>set (take n (sort_key (\<lambda>x. float_rank (distance_key x)) xs)).
          distance_key x \<noteq> NaN"
    using assms set_take_subset[of n "sort_key (\<lambda>x. float_rank (distance_key x)) xs"]
    by auto
  with s show ?thesis unfolding eq by (rule float_le_of_rank)
qed

text \<open>
  C4, as amended. For any resource documents listed for the disaster, the list the Resource
  Ranker returns has at most five entries, and every entry comes from a listed document that
  has both its latitude and its longitude: a document missing either is excluded. When none
  of the computed distances is NaN, the list is sorted by non-decreasing distance to the
  requester, the distance being the one the stage computes and stores.
\<close>

theorem ranked_resources_sorted_top5:
  "length (nearby_resources (fetch_nearby_resources env st)) \<le> 5 \<and>
   (\<forall>r\<in>set (nearby_resources (fetch_nearby_resources env st)).
      map_of r ''latitude'' \<noteq> None \<and> map_of r ''longitude'' \<noteq> None \<and>
      (\<exists>documents user_lat user_lon.
         list_resources_for_disaster env (disaster_id st) = Inr documents \<and>
         py_float env (PStr (latitude st)) = Inr user_lat \<and>
         py_float env (PStr (longitude st)) = Inr user_lon \<and>
         (\<exists>doc\<in>set documents. \<exists>resource_lat resource_lon distance rid.
            map_of doc ''latitude'' \<noteq> None \<and> map_of doc ''longitude'' \<noteq> None \<and>
            py_float env (dget doc ''latitude'') = Inr resource_lat \<and>
            py_float env (dget doc ''longitude'') = Inr resource_lon \<and>
            distance_to env user_lat user_lon resource_lat resource_lon = Inr distance \<and>
            map_of doc ''$id'' = Some rid \<and>
            r = resource_data doc distance rid \<and>
            distance_key r = distance))) \<and>
   ((\<forall>nearby. collect_nearby_resources env st = Inr nearby \<longrightarrow>
        (\<forall>x\<in>set nearby. distance_key x \<noteq> NaN)) \<longrightarrow>
    sorted_wrt float_le
      (map distance_key (nearby_resources (fetch_nearby_resources env st))))"
proof (cases "collect_nearby_resources env st")
  case (Inl e)
  then show ?thesis
    by (simp add: fetch_nearby_resources_def fetch_nearby_resources_try_def)
next
  case (Inr nearby)
  then obtain documents user_lat user_lon where
    l: "list_resources_for_disaster env (disaster_id st) = Inr documents"
    and u: "py_float env (PStr (latitude st)) = Inr user_lat"
           "py_float env (PStr (longitude st)) = Inr user_lon"
    and loop: "rank_loop env user_lat user_lon documents [] = Inr nearby"
    by (auto simp: collect_nearby_resources_def split: sum.splits)
  let ?rs = "take 5 (list_sort_by_distance env nearby)"
  have res: "nearby_resources (fetch_nearby_resources env st) = ?rs"
    using Inr by (simp add: fetch_nearby_resources_def fetch_nearby_resources_try_def)
  have entries: "\<forall>r\<in>set nearby. \<exists>doc\<in>set documents. \<exists>rlat rlon distance rid.
         truthy (dget doc ''latitude'') \<and> truthy (dget doc ''longitude'') \<and>
         py_float env (dget doc ''latitude'') = Inr rlat \<and>
         py_float env (dget doc ''longitude'') = Inr rlon \<and>
         distance_to env user_lat user_lon rlat rlon = Inr distance \<and>
         dindex doc ''$id'' = Inr rid \<and>
         r = resource_data doc distance rid"
    using rank_loop_entries[OF loop] by simp
  have sub: "set ?rs \<subseteq> set nearby"
    using set_take_subset[of 5 "list_sort_by_distance env nearby"]
    by (simp add: set_list_sort_by_distance)
  have each: "\<forall>r\<in>set ?rs.
      map_of r ''latitude'' \<noteq> None \<and> map_of r ''longitude'' \<noteq> None \<and>
      (\<exists>doc\<in>set documents. \<exists>resource_lat resource_lon distance rid.
            map_of doc ''latitude'' \<noteq> None \<and> map_of doc ''longitude'' \<noteq> None \<and>
            py_float env (dget doc ''latitude'') = Inr resource_lat \<and>
            py_float env (dget doc ''longitude'') = Inr resource_lon \<and>
            distance_to env user_lat user_lon resource_lat resource_lon = Inr distance \<and>
            map_of doc ''$id'' = Some rid \<and>
            r = resource_data doc distance rid \<and>
            distance_key r = distance)"
  proof
    fix r assume "r \<in> set ?rs"
    with sub have "r \<in> set nearby" by blast
    with entries obtain doc rlat rlon distance rid where
      d: "doc \<in> set documents" "truthy (dget doc ''latitude'')" "truthy (dget doc ''longitude'')"
         "py_float env (dget doc ''latitude'') = Inr rlat"
         "py_float env (dget doc ''longitude'') = Inr rlon"
         "distance_to env user_lat user_lon rlat rlon = Inr distance"
         "r = resource_data doc distance rid"
         "dindex doc ''$id'' = Inr rid"
      by blast
    have i: "map_of doc ''$id'' = Some rid"
      using d(8) by (cases "map_of doc ''$id''") (simp_all add: dindex_def)
    have p: "map_of doc ''latitude'' \<noteq> None" "map_of doc ''longitude'' \<noteq> None"
      using d(2,3) by (auto dest: truthy_dget_present)
    have q: "map_of r ''latitude'' \<noteq> None" "map_of r ''longitude'' \<noteq> None"
      using p d(7) by (simp_all add: map_of_resource_data)
    have k: "distance_key r = distance"
      using d(7) by (simp add: distance_key_resource_data)
    from d p q k i show "map_of r ''latitude'' \<noteq> None \<and> map_of r ''longitude'' \<noteq> None \<and>
      (\<exists>doc\<in>set documents. \<exists>resource_lat resource_lon distance rid.
            map_of doc ''latitude'' \<noteq> None \<and> map_of doc ''longitude'' \<noteq> None \<and>
            py_float env (dget doc ''latitude'') = Inr resource_lat \<and>
            py_float env (dget doc ''longitude'') = Inr resource_lon \<and>
            distance_to env user_lat user_lon resource_lat resource_lon = Inr distance \<and>
            map_of doc ''$id'' = Some rid \<and>
            r = resource_data doc distance rid \<and>
            distance_key r = distance)"
      by blast
  qed
  have len: "length ?rs \<le> 5" by simp
  have srt: "(\<forall>nearby. collect_nearby_resources env st = Inr nearby \<longrightarrow>
        (\<forall>x\<in>set nearby. distance_key x \<noteq> NaN)) \<longrightarrow>
    sorted_wrt float_le (map distance_key ?rs)"
    using Inr list_sort_by_distance_sorted[of nearby 5 env] by simp
  show ?thesis
    unfolding res using len each srt l u by simp
qed

lemma sqrt_9: "sqrt 9 = 3"
  by (rule real_sqrt_unique) simp_all

lemma sqrt_25: "sqrt 25 = 5"
  by (rule real_sqrt_unique) simp_all

lemmas sample_defs = sample_env_def stocked_env_def sample_state_def sample_float_def shelter_near_def
  depot_far_def clinic_no_latitude_def camp_malformed_def

lemmas ranker_defs = fetch_nearby_resources_def fetch_nearby_resources_try_def
  collect_nearby_resources_def distance_to_def dget_def dindex_def sqrt_9 sqrt_25

lemma sample_collect:
  "collect_nearby_resources stocked_env sample_state =
     Inr [resource_data depot_far (Num 5) (PStr ''r2''),
          resource_data shelter_near (Num 3) (PStr ''r1'')]"
  by (simp add: ranker_defs sample_defs)

lemma sample_ranking:
  "nearby_resources (fetch_nearby_resources stocked_env sample_state) =
     [resource_data shelter_near (Num 3) (PStr ''r1''),
      resource_data depot_far (Num 5) (PStr ''r2'')]"
  by (simp add: fetch_nearby_resources_def fetch_nearby_resources_try_def sample_collect
        list_sort_by_distance_def distance_key_resource_data)

theorem ranked_resources_sorted_top5_witness:
  "collect_nearby_resources stocked_env sample_state =
     Inr [resource_data depot_far (Num 5) (PStr ''r2''),
          resource_data shelter_near (Num 3) (PStr ''r1'')] \<and>
   distance_key (resource_data depot_far (Num 5) (PStr ''r2'')) = Num 5 \<and>
   distance_key (resource_data shelter_near (Num 3) (PStr ''r1'')) = Num 3 \<and>
   nearby_resources (fetch_nearby_resources stocked_env sample_state) =
     [resource_data shelter_near (Num 3) (PStr ''r1''),
      resource_data depot_far (Num 5) (PStr ''r2'')] \<and>
   sorted_wrt float_le [Num 3, Num 5] \<and>
   length [resource_data shelter_near (Num 3) (PStr ''r1''),
           resource_data depot_far (Num 5) (PStr ''r2'')] \<le> 5 \<and>
   map_of clinic_no_latitude ''latitude'' = None \<and>
   map_of (resource_data shelter_near (Num 3) (PStr ''r1'')) ''latitude''
     = Some (PFloat (Num 12)) \<and>
   map_of (resource_data depot_far (Num 5) (PStr ''r2'')) ''latitude'' = Some (PStr ''16.0'')"
  using ranked_resources_sorted_top5[of stocked_env sample_state]
  unfolding sample_ranking sample_collect
  by (simp add: distance_key_resource_data map_of_resource_data shelter_near_def
        depot_far_def clinic_no_latitude_def)

text \<open>
  C4 as stated fails: \<^verbatim>\<open>float\<close> accepts the coordinate \<^verbatim>\<open>nan\<close>, the distance of that
  resource is NaN, and the sort leaves the distances 5.0, NaN, 3.0 in the order of the
  listing.
\<close>

theorem nan_distance_unsorted_counterexample:
  "list_resources_for_disaster nan_env (disaster_id sample_state)
     = Inr [depot_far, camp_nan, shelter_near] \<and>
   py_float nan_env (dget camp_nan ''latitude'') = Inr NaN \<and>
   nearby_resources (fetch_nearby_resources nan_env sample_state) =
     [resource_data depot_far (Num 5) (PStr ''r2''),
      resource_data camp_nan NaN (PStr ''r5''),
      resource_data shelter_near (Num 3) (PStr ''r1'')] \<and>
   map distance_key (nearby_resources (fetch_nearby_resources nan_env sample_state))
     = [Num 5, NaN, Num 3] \<and>
   \<not> sorted_wrt float_le
       (map distance_key (nearby_resources (fetch_nearby_resources nan_env sample_state)))"
proof -
  have c: "collect_nearby_resources nan_env sample_state =
     Inr [resource_data depot_far (Num 5) (PStr ''r2''),
          resource_data camp_nan NaN (PStr ''r5''),
          resource_data shelter_near (Num 3) (PStr ''r1'')]"
    by (simp add: ranker_defs nan_env_def camp_nan_def sample_defs)
  have s: "sort_with_nan nan_env xs = xs" for xs
    by (simp add: nan_env_def sample_env_def)
  have r: "nearby_resources (fetch_nearby_resources nan_env sample_state) =
     [resource_data depot_far (Num 5) (PStr ''r2''),
      resource_data camp_nan NaN (PStr ''r5''),
      resource_data shelter_near (Num 3) (PStr ''r1'')]"
    by (simp add: fetch_nearby_resources_def fetch_nearby_resources_try_def c
          list_sort_by_distance_def distance_key_resource_data s)
  show ?thesis
    unfolding r
    by (simp add: distance_key_resource_data float_le_def nan_env_def camp_nan_def
          sample_defs dget_def)
qed

text \<open>
  C10. When one listed resource has both coordinate fields present and \<^verbatim>\<open>float\<close> rejects
  one of them, the exception reaches the handler of the whole stage and the stage returns
  the empty list, whatever valid resources are listed beside it.
\<close>

theorem malformed_coordinate_discards_all:
  assumes "list_resources_for_disaster env (disaster_id st) = Inr documents"
    and "doc \<in> set documents"
    and "truthy (dget doc ''latitude'')" and "truthy (dget doc ''longitude'')"
    and "(\<exists>e. py_float env (dget doc ''latitude'') = Inl e) \<or>
         (\<exists>e. py_float env (dget doc ''longitude'') = Inl e)"
  shows "nearby_resources (fetch_nearby_resources env st) = []"
proof (cases "fetch_nearby_resources_try env st")
  case (Inl e)
  then show ?thesis by (simp add: fetch_nearby_resources_def)
next
  case (Inr st')
  then obtain user_lat user_lon nearby where
    "rank_loop env user_lat user_lon documents [] = Inr nearby"
    using assms(1) by (auto simp: fetch_nearby_resources_try_def collect_nearby_resources_def split: sum.splits)
  moreover obtain e where "rank_loop env user_lat user_lon documents [] = Inl e"
    using rank_loop_malformed[OF assms(2-5)] by blast
  ultimately show ?thesis by simp
qed

theorem malformed_coordinate_discards_all_witness:
  "camp_malformed \<in> set [shelter_near, camp_malformed, depot_far] \<and>
   map_of camp_malformed ''latitude'' = Some (PStr ''north'') \<and>
   map_of camp_malformed ''longitude'' = Some (PStr ''77.0'') \<and>
   (\<exists>e. py_float malformed_env (PStr ''north'') = Inl e) \<and>
   (\<exists>r. py_float malformed_env (dget shelter_near ''latitude'') = Inr r) \<and>
   (\<exists>r. py_float malformed_env (dget shelter_near ''longitude'') = Inr r) \<and>
   nearby_resources (fetch_nearby_resources malformed_env sample_state) = []"
proof -
  have l: "list_resources_for_disaster malformed_env (disaster_id sample_state)
             = Inr [shelter_near, camp_malformed, depot_far]"
    by (simp add: malformed_env_def sample_defs)
  have m: "camp_malformed \<in> set [shelter_near, camp_malformed, depot_far]" by simp
  have t: "truthy (dget camp_malformed ''latitude'')" "truthy (dget camp_malformed ''longitude'')"
    by (simp_all add: camp_malformed_def dget_def)
  have f: "(\<exists>e. py_float malformed_env (dget camp_malformed ''latitude'') = Inl e) \<or>
           (\<exists>e. py_float malformed_env (dget camp_malformed ''longitude'') = Inl e)"
    by (simp add: malformed_env_def sample_defs dget_def)
  show ?thesis
    using malformed_coordinate_discards_all[OF l m t f]
    by (simp add: malformed_env_def sample_defs dget_def)
qed

text \<open>
  C8. The Resource Ranker never fails fatally: when anything in its \<^verbatim>\<open>try\<close> block
  raises, it returns the state with an empty resource list, and the pipeline goes on with
  the Task Synthesizer on that state.
\<close>

theorem ranker_never_fatal:
  assumes "fetch_nearby_resources_try env st = Inl e"
  shows "fetch_nearby_resources env st = st\<lparr>nearby_resources := []\<rparr> \<and>
         (\<forall>st0. fetch_disaster_type env st0 = Inr st \<longrightarrow>
            run_graph env st0 =
              (case generate_emergency_task env (st\<lparr>nearby_resources := []\<rparr>) of
                 Inl e \<Rightarrow> ([], Inl e)
               | Inr st3 \<Rightarrow>
                   (let (calls4, st4) = save_task_to_db env st3;
                        (calls5, r) = save_user_request env st4
                    in (calls4 @ calls5, r))))"
  using assms by (simp add: fetch_nearby_resources_def run_graph_def)


section \<open>Properties of the Task Synthesizer\<close>

lemma valid_roles_cases:
  "valid_roles r = [PStr ''vol''] \<or> valid_roles r = [PStr ''fr''] \<or>
   valid_roles r = [PStr ''vol'', PStr ''fr'']"
  by (auto simp: valid_roles_def)

lemma fallback_classifier_roles:
  "snd (fallback_classifier env h u la lo rs) = [PStr ''vol''] \<or>
   snd (fallback_classifier env h u la lo rs) = [PStr ''fr''] \<or>
   snd (fallback_classifier env h u la lo rs) = [PStr ''vol'', PStr ''fr'']"
  by (auto simp: fallback_classifier_def Let_def split: list.splits)

lemma fallback_task_fields:
  assumes "fallback_task env st u = Inr t"
  shows "map_of t ''roles'' =
           Some (PList (snd (fallback_classifier env (help_needed st) u (latitude st)
                               (longitude st) (nearby_resources st))))"
    and "map_of t ''description'' =
           Some (PStr (fst (fallback_classifier env (help_needed st) u (latitude st)
                              (longitude st) (nearby_resources st))))"
    and "map_of t ''is_fallback'' = Some (PBool True)"
    and "map_of t ''task_id'' = Some (PStr (uuid4 env))"
  using assms
  by (auto simp: fallback_task_def Let_def split: pyval.splits sum.splits prod.splits)

lemma primary_task_fields:
  assumes "primary_task env st u = Inr t"
  shows "\<exists>content ai_data.
           gemini_invoke env = Inr content \<and>
           json_loads env (strip_fence (py_strip content)) = Inr (PDict ai_data) \<and>
           map_of t ''roles'' =
             Some (PList (valid_roles (dget_default ai_data ''roles'' (PStr ''vol''))))"
    and "map_of t ''is_fallback'' = Some (PBool False)"
    and "map_of t ''task_id'' = Some (PStr (uuid4 env))"
  using assms
  by (auto simp: primary_task_def Let_def split: pyval.splits sum.splits if_splits)

lemma fallback_task_total:
  assumes "emergency_type st = PStr et"
    and "py_float env (PStr (latitude st)) = Inr la"
    and "py_float env (PStr (longitude st)) = Inr lo"
  shows "\<exists>t. fallback_task env st u = Inr t"
  using assms by (simp add: fallback_task_def Let_def split: prod.splits)

lemma fallback_task_raises:
  assumes "fallback_task env st u = Inl e"
  shows "(\<exists>e'. py_float env (PStr (latitude st)) = Inl e') \<or>
         (\<exists>e'. py_float env (PStr (longitude st)) = Inl e') \<or>
         (\<forall>s. emergency_type st \<noteq> PStr s)"
  using assms
  by (auto simp: fallback_task_def Let_def split: pyval.splits sum.splits prod.splits)

lemma generate_emergency_task_Inr:
  assumes "generate_emergency_task env st = Inr st'"
  shows "\<exists>t. st' = st\<lparr>generated_task := t\<rparr> \<and>
           (primary_task env st (normalize_urgency (urgency_type st)) = Inr t \<or>
            (\<exists>e. primary_task env st (normalize_urgency (urgency_type st)) = Inl e) \<and>
            fallback_task env st (normalize_urgency (urgency_type st)) = Inr t)"
  using assms
  by (auto simp: generate_emergency_task_def Let_def split: sum.splits)

lemma generate_emergency_task_Inl:
  assumes "generate_emergency_task env st = Inl e"
  shows "fallback_task env st (normalize_urgency (urgency_type st)) = Inl e"
  using assms
  by (auto simp: generate_emergency_task_def Let_def split: sum.splits)


lemmas classifier_defs = fallback_classifier_def is_inappropriate_def needs_food_def
  needs_medical_def mass_casualty_def any_keyword_in_def inappropriate_keywords_def
  food_keywords_def medical_keywords_def mass_keywords_def py_lower_def lower_char_def latin1_upper_def latin1_lower_def
  sublist_code at_location_def verification_description_def

lemma sample_primary_fails:
  "primary_task sample_env st u = Inl (Raised OtherException ''model unavailable'')"
  by (simp add: primary_task_def sample_env_def)

lemma sample_fallback:
  "fallback_task sample_env sample_state ''medium'' = Inr sample_fallback_task"
  by (simp add: fallback_task_def sample_defs classifier_defs sample_fallback_task_def)

lemma sample_generate:
  "generate_emergency_task sample_env sample_state
     = Inr (sample_state\<lparr>generated_task := sample_fallback_task\<rparr>)"
proof -
  have u: "normalize_urgency (urgency_type sample_state) = ''medium''"
    by (simp add: normalize_urgency_def sample_state_def)
  show ?thesis
    unfolding generate_emergency_task_def u Let_def
    by (simp add: sample_primary_fails sample_fallback)
qed


text \<open>
  C1, as amended. For every input state whose emergency category is a string and whose
  latitude and longitude strings \<^verbatim>\<open>float\<close> accepts, the Task Synthesizer returns the state
  with a generated task; any exception of the primary path triggers the fallback
  classifier, which then completes with a task marked as fallback.
\<close>

theorem generate_task_succeeds_on_valid_coordinates:
  assumes "emergency_type st = PStr et"
    and "py_float env (PStr (latitude st)) = Inr la"
    and "py_float env (PStr (longitude st)) = Inr lo"
  shows "\<exists>t roles.
           generate_emergency_task env st = Inr (st\<lparr>generated_task := t\<rparr>) \<and>
           map_of t ''task_id'' = Some (PStr (uuid4 env)) \<and>
           map_of t ''roles'' = Some (PList roles) \<and>
           ((\<exists>e. primary_task env st (normalize_urgency (urgency_type st)) = Inl e) \<longrightarrow>
              fallback_task env st (normalize_urgency (urgency_type st)) = Inr t \<and>
              map_of t ''is_fallback'' = Some (PBool True))"
proof (cases "primary_task env st (normalize_urgency (urgency_type st))")
  case (Inr t)
  then have "generate_emergency_task env st = Inr (st\<lparr>generated_task := t\<rparr>)"
    by (simp add: generate_emergency_task_def)
  with Inr primary_task_fields[OF Inr] show ?thesis by auto
next
  case (Inl e)
  obtain t where t: "fallback_task env st (normalize_urgency (urgency_type st)) = Inr t"
    using fallback_task_total[OF assms] by blast
  with Inl have "generate_emergency_task env st = Inr (st\<lparr>generated_task := t\<rparr>)"
    by (simp add: generate_emergency_task_def)
  with t fallback_task_fields[OF t] show ?thesis by auto
qed

theorem generate_task_succeeds_on_valid_coordinates_witness:
  "emergency_type sample_state = PStr ''flood'' \<and>
   py_float sample_env (PStr (latitude sample_state)) = Inr (Num 12) \<and>
   py_float sample_env (PStr (longitude sample_state)) = Inr (Num 77) \<and>
   generate_emergency_task sample_env sample_state
     = Inr (sample_state\<lparr>generated_task := sample_fallback_task\<rparr>) \<and>
   map_of sample_fallback_task ''is_fallback'' = Some (PBool True)"
proof -
  have h: "emergency_type sample_state = PStr ''flood''"
    "py_float sample_env (PStr (latitude sample_state)) = Inr (Num 12)"
    "py_float sample_env (PStr (longitude sample_state)) = Inr (Num 77)"
    by (simp_all add: sample_defs)
  show ?thesis
    using generate_task_succeeds_on_valid_coordinates[OF h] h sample_generate
    by (simp add: sample_fallback_task_def)
qed

lemma bad_coordinate_run:
  "generate_emergency_task sample_env bad_coordinate_state = Inl bad_coordinate_error"
  "process_emergency_request sample_env ''d1'' ''u1'' ''Need food and water'' ''moderate''
       ''abc'' ''77.0''
     = ([], Inl bad_coordinate_error)"
proof -
  have f: "fallback_task sample_env bad_coordinate_state u = Inl bad_coordinate_error" for u
    by (simp add: fallback_task_def bad_coordinate_state_def sample_defs
          bad_coordinate_error_def split: prod.splits)
  show g: "generate_emergency_task sample_env bad_coordinate_state = Inl bad_coordinate_error"
    by (simp add: generate_emergency_task_def sample_primary_fails f)
  have d: "fetch_disaster_type sample_env
             (initial_state ''d1'' ''u1'' ''Need food and water'' ''moderate'' ''abc'' ''77.0'')
           = Inr (initial_state ''d1'' ''u1'' ''Need food and water'' ''moderate'' ''abc''
                    ''77.0''\<lparr>emergency_type := PStr ''flood''\<rparr>)"
    by (simp add: fetch_disaster_type_def sample_env_def initial_state_def dget_default_def)
  have n: "fetch_nearby_resources sample_env
             (initial_state ''d1'' ''u1'' ''Need food and water'' ''moderate'' ''abc''
                ''77.0''\<lparr>emergency_type := PStr ''flood''\<rparr>)
           = bad_coordinate_state"
    by (simp add: fetch_nearby_resources_def fetch_nearby_resources_try_def
          collect_nearby_resources_def sample_defs initial_state_def bad_coordinate_state_def)
  show "process_emergency_request sample_env ''d1'' ''u1'' ''Need food and water''
       ''moderate'' ''abc'' ''77.0''
     = ([], Inl bad_coordinate_error)"
    by (simp add: process_emergency_request_def run_graph_def d n g)
qed

text \<open>
  C1 as stated fails: the fallback path converts the coordinate strings with \<^verbatim>\<open>float\<close>
  outside any handler, so a latitude that is not a number makes the stage, and with it
  the whole run, raise ValueError.
\<close>

theorem generate_task_raises_counterexample:
  "generate_emergency_task sample_env bad_coordinate_state = Inl bad_coordinate_error \<and>
   process_emergency_request sample_env ''d1'' ''u1'' ''Need food and water'' ''moderate''
       ''abc'' ''77.0''
     = ([], Inl bad_coordinate_error)"
  using bad_coordinate_run by simp

text \<open>
  C7. In the fallback classifier, help text that contains an inappropriate keyword yields
  the roles \<^verbatim>\<open>["vol"]\<close> and the verification description, whatever the urgency, the
  coordinates, the resources and the other keywords in the text.
\<close>

theorem inappropriate_text_yields_verification:
  assumes "is_inappropriate (py_lower (help_needed st))"
  shows "fallback_classifier env (help_needed st) urgency (latitude st) (longitude st)
           (nearby_resources st)
         = (''Verify request details and assess if legitimate emergency assistance is needed.'',
            [PStr ''vol'']) \<and>
         (\<forall>t. fallback_task env st urgency = Inr t \<longrightarrow>
            map_of t ''roles'' = Some (PList [PStr ''vol'']) \<and>
            map_of t ''description'' =
              Some (PStr ''Verify request details and assess if legitimate emergency assistance is needed.''))"
proof -
  have c: "fallback_classifier env (help_needed st) urgency (latitude st) (longitude st)
           (nearby_resources st)
         = (''Verify request details and assess if legitimate emergency assistance is needed.'',
            [PStr ''vol''])"
    using assms by (simp add: fallback_classifier_def verification_description_def)
  show ?thesis
    using c fallback_task_fields(1,2) by auto
qed


lemma prank_signals:
  "is_inappropriate (py_lower (help_needed prank_state))"
  "mass_casualty (py_lower (help_needed prank_state))"
  "needs_medical (py_lower (help_needed prank_state))"
  by (simp_all add: prank_state_def sample_state_def classifier_defs)

lemma prank_fallback:
  "fallback_task sample_env prank_state ''high'' = Inr prank_fallback_task"
  by (simp add: fallback_task_def prank_state_def sample_defs classifier_defs
        prank_fallback_task_def)

theorem inappropriate_text_yields_verification_witness:
  "is_inappropriate (py_lower (help_needed prank_state)) \<and>
   mass_casualty (py_lower (help_needed prank_state)) \<and>
   needs_medical (py_lower (help_needed prank_state)) \<and>
   fallback_task sample_env prank_state ''high'' = Inr prank_fallback_task \<and>
   map_of prank_fallback_task ''roles'' = Some (PList [PStr ''vol'']) \<and>
   map_of prank_fallback_task ''description'' =
     Some (PStr ''Verify request details and assess if legitimate emergency assistance is needed.'')"
  using inappropriate_text_yields_verification[OF prank_signals(1), of sample_env "''high''"]
    prank_signals prank_fallback
  by simp

text \<open>
  C3, as amended. For help text without an inappropriate keyword, the fallback classifier
  follows the priority order on the lowercased help text, with the urgency \<^verbatim>\<open>moderate\<close>
  read as \<^verbatim>\<open>medium\<close>: a mass-casualty keyword together with a medical keyword or urgency
  \<^verbatim>\<open>high\<close> gives both roles; otherwise a medical keyword or urgency \<^verbatim>\<open>high\<close> gives
  \<^verbatim>\<open>fr\<close>; otherwise a food or water keyword gives \<^verbatim>\<open>vol\<close> and the delivery description;
  otherwise \<^verbatim>\<open>vol\<close> with the generic description. The task is marked as fallback, and
  with a ranked resource its name is appended to the description.
\<close>

theorem fallback_priority_order:
  assumes "\<not> is_inappropriate (py_lower (help_needed st))"
    and "primary_task env st (normalize_urgency (urgency_type st)) = Inl e"
    and "generate_emergency_task env st = Inr st'"
  shows "map_of (generated_task st') ''is_fallback'' = Some (PBool True) \<and>
         map_of (generated_task st') ''roles'' =
           Some (PList
             (if mass_casualty (py_lower (help_needed st)) \<and>
                 (needs_medical (py_lower (help_needed st)) \<or>
                  normalize_urgency (urgency_type st) = ''high'')
              then [PStr ''vol'', PStr ''fr'']
              else if needs_medical (py_lower (help_needed st)) \<or>
                      normalize_urgency (urgency_type st) = ''high''
              then [PStr ''fr'']
              else if needs_food (py_lower (help_needed st))
              then [PStr ''vol'']
              else [PStr ''vol''])) \<and>
         map_of (generated_task st') ''description'' =
           Some (PStr
             ((if mass_casualty (py_lower (help_needed st)) \<and>
                  (needs_medical (py_lower (help_needed st)) \<or>
                   normalize_urgency (urgency_type st) = ''high'')
               then ''Coordinate emergency response for multiple people needing ''
                      @ help_needed st @ '' at location ('' @ latitude st @ '', ''
                      @ longitude st @ '').''
               else if needs_medical (py_lower (help_needed st)) \<or>
                       normalize_urgency (urgency_type st) = ''high''
               then ''Provide immediate medical assistance to person needing ''
                      @ help_needed st @ '' at location ('' @ latitude st @ '', ''
                      @ longitude st @ '').''
               else if needs_food (py_lower (help_needed st))
               then ''Deliver food and water supplies to person at location (''
                      @ latitude st @ '', '' @ longitude st @ '').''
               else ''Assist person needing '' @ help_needed st @ '' at location (''
                      @ latitude st @ '', '' @ longitude st @ '').'')
              @ (case nearby_resources st of
                   [] \<Rightarrow> []
                 | closest_resource # rest \<Rightarrow>
                     '' Coordinate with ''
                       @ format_field env
                           (dget_default closest_resource ''name'' (PStr ''nearby resource''))
                       @ '' for assistance.'')))"
proof -
  from generate_emergency_task_Inr[OF assms(3)] assms(2) obtain t where
    st': "st' = st\<lparr>generated_task := t\<rparr>"
    and t: "fallback_task env st (normalize_urgency (urgency_type st)) = Inr t"
    by auto
  have g: "generated_task st' = t" using st' by simp
  show ?thesis
    unfolding g
    using fallback_task_fields(1,2,3)[OF t] assms(1)
    by (simp add: fallback_classifier_def Let_def at_location_def split: list.splits)
qed

theorem fallback_priority_order_witness:
  "\<not> is_inappropriate (py_lower (help_needed sample_state)) \<and>
   needs_food (py_lower (help_needed sample_state)) \<and>
   \<not> needs_medical (py_lower (help_needed sample_state)) \<and>
   \<not> mass_casualty (py_lower (help_needed sample_state)) \<and>
   normalize_urgency (urgency_type sample_state) = ''medium'' \<and>
   generate_emergency_task sample_env sample_state
     = Inr (sample_state\<lparr>generated_task := sample_fallback_task\<rparr>) \<and>
   map_of sample_fallback_task ''roles'' = Some (PList [PStr ''vol'']) \<and>
   map_of sample_fallback_task ''description'' =
     Some (PStr ''Deliver food and water supplies to person at location (12.0, 77.0).'') \<and>
   map_of sample_fallback_task ''is_fallback'' = Some (PBool True)"
proof -
  have s: "\<not> is_inappropriate (py_lower (help_needed sample_state))"
    "needs_food (py_lower (help_needed sample_state))"
    "\<not> needs_medical (py_lower (help_needed sample_state))"
    "\<not> mass_casualty (py_lower (help_needed sample_state))"
    by (simp_all add: sample_state_def classifier_defs)
  have u: "normalize_urgency (urgency_type sample_state) = ''medium''"
    by (simp add: normalize_urgency_def sample_state_def)
  show ?thesis
    using fallback_priority_order[OF s(1) sample_primary_fails sample_generate] s u
      sample_generate
    by (simp add: sample_fallback_task_def)
qed

text \<open>
  C3 as stated fails: the check for inappropriate keywords comes before the priority
  order. A text with a mass-casualty keyword, a medical keyword and urgency \<^verbatim>\<open>high\<close>
  that also contains \<^verbatim>\<open>joke\<close> gets \<^verbatim>\<open>["vol"]\<close>, not both roles.
\<close>

theorem priority_order_counterexample:
  "mass_casualty (py_lower (help_needed prank_state)) \<and>
   needs_medical (py_lower (help_needed prank_state)) \<and>
   normalize_urgency (urgency_type prank_state) = ''high'' \<and>
   primary_task sample_env prank_state ''high''
     = Inl (Raised OtherException ''model unavailable'') \<and>
   generate_emergency_task sample_env prank_state
     = Inr (prank_state\<lparr>generated_task := prank_fallback_task\<rparr>) \<and>
   map_of prank_fallback_task ''roles'' = Some (PList [PStr ''vol''])"
proof -
  have u: "normalize_urgency (urgency_type prank_state) = ''high''"
    by (simp add: normalize_urgency_def prank_state_def)
  have g: "generate_emergency_task sample_env prank_state
     = Inr (prank_state\<lparr>generated_task := prank_fallback_task\<rparr>)"
    unfolding generate_emergency_task_def u Let_def
    by (simp add: sample_primary_fails prank_fallback)
  show ?thesis
    using prank_signals u g sample_primary_fails
    by (simp add: prank_fallback_task_def)
qed


lemma fallback_roles_independent:
  "snd (fallback_classifier env1 h u la1 lo1 rs1) = snd (fallback_classifier env2 h u la2 lo2 rs2)"
  by (auto simp: fallback_classifier_def Let_def split: list.splits)

lemma fallback_description_independent:
  "py_format env1 = py_format env2 \<Longrightarrow>
   fst (fallback_classifier env1 h u la lo rs) = fst (fallback_classifier env2 h u la lo rs)"
  by (auto simp: fallback_classifier_def Let_def format_field_def split: list.splits pyval.splits)

lemma moved_fallback:
  "fallback_task second_env moved_state ''medium'' = Inr moved_fallback_task"
  by (simp add: fallback_task_def second_env_def moved_state_def sample_defs classifier_defs
        moved_fallback_task_def)

text \<open>
  C9, as amended. The fallback classifier is deterministic: two runs with the same help
  text, urgency label and ranked resources produce the same roles, both tasks are marked as
  fallback, and the descriptions are the same when the latitude and longitude of the two
  requests are the same as well.
\<close>

theorem fallback_classifier_deterministic:
  assumes "fallback_task env1 st1 (normalize_urgency (urgency_type st1)) = Inr t1"
    and "fallback_task env2 st2 (normalize_urgency (urgency_type st2)) = Inr t2"
    and "help_needed st1 = help_needed st2"
    and "urgency_type st1 = urgency_type st2"
    and "nearby_resources st1 = nearby_resources st2"
  shows "map_of t1 ''roles'' = map_of t2 ''roles'' \<and>
         map_of t1 ''is_fallback'' = Some (PBool True) \<and>
         map_of t2 ''is_fallback'' = Some (PBool True) \<and>
         (latitude st1 = latitude st2 \<and> longitude st1 = longitude st2 \<and>
          py_format env1 = py_format env2 \<longrightarrow>
            map_of t1 ''description'' = map_of t2 ''description'')"
proof -
  note f1 = fallback_task_fields[OF assms(1)]
  note f2 = fallback_task_fields[OF assms(2)]
  have r: "map_of t1 ''roles'' = map_of t2 ''roles''"
    using f1(1) f2(1) assms(3,4)
      fallback_roles_independent[of env1 "help_needed st2"
        "normalize_urgency (urgency_type st2)" "latitude st1" "longitude st1"
        "nearby_resources st1" env2 "latitude st2" "longitude st2" "nearby_resources st2"]
    by simp
  have d: "map_of t1 ''description'' = map_of t2 ''description''"
    if "latitude st1 = latitude st2 \<and> longitude st1 = longitude st2 \<and>
        py_format env1 = py_format env2"
    using that f1(2) f2(2) assms(3,4,5)
      fallback_description_independent[of env1 env2 "help_needed st2"
        "normalize_urgency (urgency_type st2)" "latitude st2" "longitude st2"
        "nearby_resources st2"]
    by simp
  show ?thesis using r d f1(3) f2(3) by blast
qed

theorem fallback_classifier_deterministic_witness:
  "fallback_task sample_env sample_state (normalize_urgency (urgency_type sample_state))
     = Inr sample_fallback_task \<and>
   fallback_task second_env moved_state (normalize_urgency (urgency_type moved_state))
     = Inr moved_fallback_task \<and>
   help_needed sample_state = help_needed moved_state \<and>
   urgency_type sample_state = urgency_type moved_state \<and>
   nearby_resources sample_state = nearby_resources moved_state \<and>
   map_of sample_fallback_task ''roles'' = map_of moved_fallback_task ''roles'' \<and>
   map_of sample_fallback_task ''is_fallback'' = Some (PBool True) \<and>
   map_of moved_fallback_task ''is_fallback'' = Some (PBool True)"
proof -
  have u: "normalize_urgency (urgency_type sample_state) = ''medium''"
    "normalize_urgency (urgency_type moved_state) = ''medium''"
    by (simp_all add: normalize_urgency_def sample_state_def moved_state_def)
  have a: "fallback_task sample_env sample_state (normalize_urgency (urgency_type sample_state))
     = Inr sample_fallback_task"
    unfolding u by (rule sample_fallback)
  have b: "fallback_task second_env moved_state (normalize_urgency (urgency_type moved_state))
     = Inr moved_fallback_task"
    unfolding u by (rule moved_fallback)
  have c: "help_needed sample_state = help_needed moved_state"
    "urgency_type sample_state = urgency_type moved_state"
    "nearby_resources sample_state = nearby_resources moved_state"
    by (simp_all add: moved_state_def)
  show ?thesis
    using fallback_classifier_deterministic[OF a b c] a b c by simp
qed

text \<open>
  C9 as stated fails for the description: it names the coordinates of the request, which
  are not among the inputs the claim fixes. Two requests with the same help text, urgency
  and (empty) resource list but different latitudes get different descriptions.
\<close>

theorem same_inputs_different_description_counterexample:
  "help_needed sample_state = help_needed moved_state \<and>
   urgency_type sample_state = urgency_type moved_state \<and>
   nearby_resources sample_state = nearby_resources moved_state \<and>
   fallback_task sample_env sample_state ''medium'' = Inr sample_fallback_task \<and>
   fallback_task second_env moved_state ''medium'' = Inr moved_fallback_task \<and>
   map_of sample_fallback_task ''description'' =
     Some (PStr ''Deliver food and water supplies to person at location (12.0, 77.0).'') \<and>
   map_of moved_fallback_task ''description'' =
     Some (PStr ''Deliver food and water supplies to person at location (16.0, 77.0).'') \<and>
   map_of sample_fallback_task ''description'' \<noteq> map_of moved_fallback_task ''description''"
  using sample_fallback moved_fallback
  by (simp add: moved_state_def sample_fallback_task_def moved_fallback_task_def)


section \<open>Properties of the Task Persister\<close>

lemma delete_existing_calls:
  "delete_existing env existing =
     map (\<lambda>task. DeleteDocument (py_or (dget task ''$id'') (dget task ''task_id'')))
       (filter (\<lambda>task. truthy (py_or (dget task ''$id'') (dget task ''task_id'')) \<and>
                       \<not> truthy (dget_default task ''first_Task'' (PBool False)))
          existing)"
  by (induction existing) (auto simp: Let_def split: sum.splits)

lemma save_task_to_db_state: "snd (save_task_to_db env st) = st"
  by (simp add: save_task_to_db_def Let_def)

lemma save_task_to_db_calls:
  "fst (save_task_to_db env st) =
     (case list_tasks_by_user_and_disaster env (user_id st) (disaster_id st) of
        Inl e \<Rightarrow> []
      | Inr existing \<Rightarrow> delete_existing env existing)
     @ [SaveTaskDocument (generated_task st)]"
  by (simp add: save_task_to_db_def Let_def split: sum.splits)

text \<open>
  C5. The Task Persister returns the state unchanged and never raises, also when the
  listing, a delete or the save fails. Its store calls are the deletes followed by the
  one save of the new task. Every listed task whose \<^verbatim>\<open>first_Task\<close> flag is false or
  absent is deleted, under the id the listing gives it; every delete is of a listed task
  whose flag is not true, so with distinct ids no task flagged true is deleted.
\<close>

theorem task_persister_replaces_non_first_tasks:
  "snd (save_task_to_db env st) = st \<and>
   (\<exists>deletes.
      fst (save_task_to_db env st) = deletes @ [SaveTaskDocument (generated_task st)] \<and>
      (\<forall>e. list_tasks_by_user_and_disaster env (user_id st) (disaster_id st) = Inl e
           \<longrightarrow> deletes = []) \<and>
      (\<forall>existing.
         list_tasks_by_user_and_disaster env (user_id st) (disaster_id st) = Inr existing
         \<longrightarrow>
         deletes =
           map (\<lambda>task. DeleteDocument (py_or (dget task ''$id'') (dget task ''task_id'')))
             (filter (\<lambda>task. truthy (py_or (dget task ''$id'') (dget task ''task_id'')) \<and>
                             \<not> truthy (dget_default task ''first_Task'' (PBool False)))
                existing) \<and>
         (\<forall>task\<in>set existing.
            (map_of task ''first_Task'' = None \<or>
             map_of task ''first_Task'' = Some (PBool False)) \<and>
            truthy (py_or (dget task ''$id'') (dget task ''task_id''))
            \<longrightarrow> DeleteDocument (py_or (dget task ''$id'') (dget task ''task_id''))
                  \<in> set deletes) \<and>
         (\<forall>call\<in>set deletes. \<exists>task\<in>set existing.
            call = DeleteDocument (py_or (dget task ''$id'') (dget task ''task_id'')) \<and>
            map_of task ''first_Task'' \<noteq> Some (PBool True)) \<and>
         (distinct (map (\<lambda>task. py_or (dget task ''$id'') (dget task ''task_id'')) existing)
          \<longrightarrow>
          (\<forall>task\<in>set existing.
             map_of task ''first_Task'' = Some (PBool True)
             \<longrightarrow> DeleteDocument (py_or (dget task ''$id'') (dget task ''task_id''))
                   \<notin> set deletes))))"
proof -
  let ?id = "\<lambda>task. py_or (dget task ''$id'') (dget task ''task_id'')"
  let ?del = "\<lambda>task. truthy (?id task) \<and>
                      \<not> truthy (dget_default task ''first_Task'' (PBool False))"
  let ?deletes = "case list_tasks_by_user_and_disaster env (user_id st) (disaster_id st) of
                    Inl e \<Rightarrow> []
                  | Inr existing \<Rightarrow> delete_existing env existing"
  have shape: "fst (save_task_to_db env st) = ?deletes @ [SaveTaskDocument (generated_task st)]"
    by (rule save_task_to_db_calls)
  have none: "\<forall>e. list_tasks_by_user_and_disaster env (user_id st) (disaster_id st) = Inl e
           \<longrightarrow> ?deletes = []"
    by simp
  have listed: "?deletes = map (\<lambda>task. DeleteDocument (?id task)) (filter ?del existing) \<and>
         (\<forall>task\<in>set existing.
            (map_of task ''first_Task'' = None \<or>
             map_of task ''first_Task'' = Some (PBool False)) \<and> truthy (?id task)
            \<longrightarrow> DeleteDocument (?id task) \<in> set ?deletes) \<and>
         (\<forall>call\<in>set ?deletes. \<exists>task\<in>set existing.
            call = DeleteDocument (?id task) \<and>
            map_of task ''first_Task'' \<noteq> Some (PBool True)) \<and>
         (distinct (map ?id existing) \<longrightarrow>
          (\<forall>task\<in>set existing.
             map_of task ''first_Task'' = Some (PBool True)
             \<longrightarrow> DeleteDocument (?id task) \<notin> set ?deletes))"
    if l: "list_tasks_by_user_and_disaster env (user_id st) (disaster_id st) = Inr existing"
    for existing
  proof -
    have eq: "?deletes = map (\<lambda>task. DeleteDocument (?id task)) (filter ?del existing)"
      using l by (simp add: delete_existing_calls)
    have a: "\<forall>task\<in>set existing.
            (map_of task ''first_Task'' = None \<or>
             map_of task ''first_Task'' = Some (PBool False)) \<and> truthy (?id task)
            \<longrightarrow> DeleteDocument (?id task) \<in> set ?deletes"
      unfolding eq by (auto simp: dget_default_def)
    have b: "\<forall>call\<in>set ?deletes. \<exists>task\<in>set existing.
            call = DeleteDocument (?id task) \<and>
            map_of task ''first_Task'' \<noteq> Some (PBool True)"
      unfolding eq by (auto simp: dget_default_def)
    have c: "distinct (map ?id existing) \<longrightarrow>
          (\<forall>task\<in>set existing.
             map_of task ''first_Task'' = Some (PBool True)
             \<longrightarrow> DeleteDocument (?id task) \<notin> set ?deletes)"
    proof (intro impI ballI)
      fix task
      assume d: "distinct (map ?id existing)" and t: "task \<in> set existing"
        and f: "map_of task ''first_Task'' = Some (PBool True)"
      show "DeleteDocument (?id task) \<notin> set ?deletes"
      proof
        assume "DeleteDocument (?id task) \<in> set ?deletes"
        then obtain other where o: "other \<in> set existing" "?del other" "?id other = ?id task"
          unfolding eq by auto
        from d o(1) t o(3) have "other = task"
          by (meson distinct_map inj_onD)
        with o(2) f show False by (simp add: dget_default_def)
      qed
    qed
    show ?thesis using eq a b c by blast
  qed
  show ?thesis
    using save_task_to_db_state shape none listed by blast
qed


theorem task_persister_replaces_non_first_tasks_witness:
  "list_tasks_by_user_and_disaster failing_store_env (user_id task_state)
       (disaster_id task_state)
     = Inr [old_task, seed_task, legacy_task] \<and>
   map_of old_task ''first_Task'' = Some (PBool False) \<and>
   map_of seed_task ''first_Task'' = Some (PBool True) \<and>
   map_of legacy_task ''first_Task'' = None \<and>
   delete_document failing_store_env (PStr ''t1'')
     = Inl (Raised OtherException ''Server Error'') \<and>
   save_task_document failing_store_env (generated_task task_state)
     = Inl (Raised OtherException ''Server Error'') \<and>
   save_task_to_db failing_store_env task_state
     = ([DeleteDocument (PStr ''t1''), DeleteDocument (PStr ''t3''),
         SaveTaskDocument sample_fallback_task],
        task_state)"
proof -
  have e: "save_task_to_db failing_store_env task_state
     = ([DeleteDocument (PStr ''t1''), DeleteDocument (PStr ''t3''),
         SaveTaskDocument sample_fallback_task],
        task_state)"
    by (simp add: save_task_to_db_def failing_store_env_def task_state_def sample_defs
          old_task_def seed_task_def legacy_task_def dget_def dget_default_def py_or_def)
  show ?thesis
    using task_persister_replaces_non_first_tasks[of failing_store_env task_state] e
    by (simp add: failing_store_env_def task_state_def sample_defs
          old_task_def seed_task_def legacy_task_def)
qed

section \<open>Properties of the pipeline\<close>

text \<open>
  C6. The Context Resolver fails fatally: when the lookup of the disaster document raises
  or returns no document, the run ends with a ValueError whose text starts with
  \<^verbatim>\<open>Disaster data not found:\<close>, and no later stage has touched the store.
\<close>

theorem missing_disaster_aborts_pipeline:
  assumes "(\<exists>e. get_disaster_document env did = Inl e) \<or>
           get_disaster_document env did = Inr None"
  shows "\<exists>msg. process_emergency_request env did uid help urgency lat lon
                  = ([], Inl (Raised ValueError (''Disaster data not found: '' @ msg)))"
proof -
  have "\<exists>msg. fetch_disaster_type env (initial_state did uid help urgency lat lon)
                 = Inl (Raised ValueError (''Disaster data not found: '' @ msg))"
    using assms
    by (auto simp: fetch_disaster_type_def initial_state_def disaster_not_found_def)
  then show ?thesis
    by (auto simp: process_emergency_request_def run_graph_def)
qed

theorem missing_disaster_aborts_pipeline_witness:
  "get_disaster_document sample_env ''d2''
     = Inl (Raised OtherException ''Document with the requested ID could not be found.'') \<and>
   process_emergency_request sample_env ''d2'' ''u1'' ''Need food and water'' ''moderate''
       ''12.0'' ''77.0''
     = ([], Inl (Raised ValueError
          ''Disaster data not found: Document with the requested ID could not be found.''))"
proof -
  have h: "(\<exists>e. get_disaster_document sample_env ''d2'' = Inl e) \<or>
           get_disaster_document sample_env ''d2'' = Inr None"
    by (simp add: sample_env_def)
  have e: "process_emergency_request sample_env ''d2'' ''u1'' ''Need food and water''
       ''moderate'' ''12.0'' ''77.0''
     = ([], Inl (Raised ValueError
          ''Disaster data not found: Document with the requested ID could not be found.''))"
    by (simp add: process_emergency_request_def run_graph_def fetch_disaster_type_def
          initial_state_def disaster_not_found_def sample_env_def)
  show ?thesis
    using missing_disaster_aborts_pipeline[OF h, of "''u1''" "''Need food and water''"
        "''moderate''" "''12.0''" "''77.0''"] e
    by (simp add: sample_env_def)
qed


lemma reply_is_unfenced: "strip_fence (py_strip fenced_reply) = reply_json"
  by code_simp

lemma primary_sample:
  "primary_task replying_env sample_state ''medium'' = Inr primary_sample_task"
proof -
  have d: "py_strip ''Set up a field kitchen for the camp''
             = ''Set up a field kitchen for the camp''"
    by code_simp
  show ?thesis
    by (simp add: primary_task_def replying_env_def reply_is_unfenced sample_defs
          dget_default_def d valid_roles_def primary_sample_task_def)
qed


lemma fetch_nearby_resources_fields:
  "fetch_nearby_resources env st =
     st\<lparr>nearby_resources := nearby_resources (fetch_nearby_resources env st)\<rparr>"
  by (auto simp: fetch_nearby_resources_def fetch_nearby_resources_try_def collect_nearby_resources_def split: sum.splits)

lemma generated_task_keys:
  assumes "generate_emergency_task env st = Inr st'"
  shows "\<exists>roles. map_of (generated_task st') ''task_id'' = Some (PStr (uuid4 env)) \<and>
           map_of (generated_task st') ''roles'' = Some (PList roles) \<and>
           (roles = [PStr ''vol''] \<or> roles = [PStr ''fr''] \<or>
            roles = [PStr ''vol'', PStr ''fr''])"
proof -
  from generate_emergency_task_Inr[OF assms] obtain t where
    st': "st' = st\<lparr>generated_task := t\<rparr>"
    and t: "primary_task env st (normalize_urgency (urgency_type st)) = Inr t \<or>
            fallback_task env st (normalize_urgency (urgency_type st)) = Inr t"
    by blast
  from t show ?thesis
  proof
    assume p: "primary_task env st (normalize_urgency (urgency_type st)) = Inr t"
    from primary_task_fields(1,3)[OF p] st' valid_roles_cases show ?thesis by fastforce
  next
    assume f: "fallback_task env st (normalize_urgency (urgency_type st)) = Inr t"
    from fallback_task_fields(1,4)[OF f] st' fallback_classifier_roles show ?thesis
      by fastforce
  qed
qed

lemma save_user_request_returns:
  assumes "map_of (generated_task st) ''task_id'' = Some i"
    and "map_of (generated_task st) ''roles'' = Some r"
  shows "\<exists>calls st'. save_user_request env st = (calls, Inr st') \<and>
           generated_task st' = generated_task st"
  using assms by (simp add: save_user_request_def dindex_def Let_def)

lemma run_graph_after_disaster:
  assumes "fetch_disaster_type env st0 = Inr st1"
  shows "case generate_emergency_task env (fetch_nearby_resources env st1) of
           Inl e \<Rightarrow> run_graph env st0 = ([], Inl e)
         | Inr st3 \<Rightarrow>
             \<exists>calls final. run_graph env st0 = (calls, Inr final) \<and>
               generated_task final = generated_task st3"
proof (cases "generate_emergency_task env (fetch_nearby_resources env st1)")
  case (Inl e)
  with assms show ?thesis by (simp add: run_graph_def)
next
  case (Inr st3)
  from generated_task_keys[OF Inr] obtain roles where
    k: "map_of (generated_task st3) ''task_id'' = Some (PStr (uuid4 env))"
       "map_of (generated_task st3) ''roles'' = Some (PList roles)"
    by blast
  obtain calls4 where c4: "save_task_to_db env st3 = (calls4, st3)"
    using save_task_to_db_state[of env st3] by (cases "save_task_to_db env st3") simp
  from save_user_request_returns[OF k] obtain calls5 final where
    c5: "save_user_request env st3 = (calls5, Inr final)"
    and g: "generated_task final = generated_task st3"
    by blast
  have "run_graph env st0 = (calls4 @ calls5, Inr final)"
    using assms Inr c4 c5 by (simp add: run_graph_def)
  with Inr g show ?thesis by simp
qed

lemma generate_emergency_task_total:
  assumes "emergency_type st = PStr et"
    and "py_float env (PStr (latitude st)) = Inr la"
    and "py_float env (PStr (longitude st)) = Inr lo"
  shows "\<exists>st'. generate_emergency_task env st = Inr st'"
proof (cases "primary_task env st (normalize_urgency (urgency_type st))")
  case (Inr t)
  then show ?thesis by (simp add: generate_emergency_task_def)
next
  case (Inl e)
  with fallback_task_total[OF assms, of "normalize_urgency (urgency_type st)"]
  show ?thesis by (auto simp: generate_emergency_task_def)
qed

text \<open>
  C2, as amended. For every request whose disaster resolves, whose emergency category is a
  string and whose latitude and longitude strings \<^verbatim>\<open>float\<close> accepts, the run ends with a
  generated task whose roles are a non-empty subset of \<^verbatim>\<open>vol\<close> and \<^verbatim>\<open>fr\<close>. On the
  primary path the answer \<^verbatim>\<open>both\<close> becomes both roles, \<^verbatim>\<open>vol\<close> and \<^verbatim>\<open>fr\<close> are kept, and
  any other or missing answer becomes \<^verbatim>\<open>vol\<close>; every task of the fallback path has one of
  the three role lists.
\<close>

theorem generated_roles_valid:
  assumes "get_disaster_document env did = Inr (Some document)"
    and "dget_default document ''emergency_type'' (PStr ''general emergency'') = PStr category"
    and "py_float env (PStr lat) = Inr la"
    and "py_float env (PStr lon) = Inr lo"
  shows "(\<exists>calls final roles.
            process_emergency_request env did uid help urgency lat lon = (calls, Inr final) \<and>
            map_of (generated_task final) ''roles'' = Some (PList roles) \<and>
            roles \<noteq> [] \<and> set roles \<subseteq> {PStr ''vol'', PStr ''fr''}) \<and>
         valid_roles (PStr ''both'') = [PStr ''vol'', PStr ''fr''] \<and>
         valid_roles (PStr ''vol'') = [PStr ''vol''] \<and>
         valid_roles (PStr ''fr'') = [PStr ''fr''] \<and>
         (answer \<notin> {PStr ''both'', PStr ''vol'', PStr ''fr''}
            \<longrightarrow> valid_roles answer = [PStr ''vol'']) \<and>
         (\<forall>st u t. primary_task env st u = Inr t \<longrightarrow>
            (\<exists>content ai_data.
               gemini_invoke env = Inr content \<and>
               json_loads env (strip_fence (py_strip content)) = Inr (PDict ai_data) \<and>
               map_of t ''roles'' =
                 Some (PList (valid_roles (dget_default ai_data ''roles'' (PStr ''vol'')))))) \<and>
         (\<forall>st u t. fallback_task env st u = Inr t \<longrightarrow>
            map_of t ''roles'' = Some (PList [PStr ''vol'']) \<or>
            map_of t ''roles'' = Some (PList [PStr ''fr'']) \<or>
            map_of t ''roles'' = Some (PList [PStr ''vol'', PStr ''fr'']))"
proof -
  let ?st0 = "initial_state did uid help urgency lat lon"
  let ?st1 = "?st0\<lparr>emergency_type :=
                 dget_default document ''emergency_type'' (PStr ''general emergency'')\<rparr>"
  let ?st2 = "fetch_nearby_resources env ?st1"
  have d: "fetch_disaster_type env ?st0 = Inr ?st1"
    using assms(1) by (simp add: fetch_disaster_type_def initial_state_def)
  have st2: "latitude ?st2 = lat" "longitude ?st2 = lon"
    "emergency_type ?st2 = dget_default document ''emergency_type'' (PStr ''general emergency'')"
    by (subst fetch_nearby_resources_fields, simp add: initial_state_def)+
  obtain st3 where g: "generate_emergency_task env ?st2 = Inr st3"
    using generate_emergency_task_total[of ?st2 category env la lo] st2 assms(2,3,4)
    by auto
  with run_graph_after_disaster[OF d] obtain calls final where
    r: "run_graph env ?st0 = (calls, Inr final)"
    and f: "generated_task final = generated_task st3"
    by auto
  from generated_task_keys[OF g] obtain roles where
    k: "map_of (generated_task st3) ''roles'' = Some (PList roles)"
       "roles = [PStr ''vol''] \<or> roles = [PStr ''fr''] \<or> roles = [PStr ''vol'', PStr ''fr'']"
    by blast
  have pipeline: "\<exists>calls final roles.
            process_emergency_request env did uid help urgency lat lon = (calls, Inr final) \<and>
            map_of (generated_task final) ''roles'' = Some (PList roles) \<and>
            roles \<noteq> [] \<and> set roles \<subseteq> {PStr ''vol'', PStr ''fr''}"
    using r f k by (auto simp: process_emergency_request_def)
  have v: "valid_roles (PStr ''both'') = [PStr ''vol'', PStr ''fr'']"
    "valid_roles (PStr ''vol'') = [PStr ''vol'']"
    "valid_roles (PStr ''fr'') = [PStr ''fr'']"
    "answer \<notin> {PStr ''both'', PStr ''vol'', PStr ''fr''}
            \<longrightarrow> valid_roles answer = [PStr ''vol'']"
    by (simp_all add: valid_roles_def)
  have p: "\<forall>st u t. primary_task env st u = Inr t \<longrightarrow>
            (\<exists>content ai_data.
               gemini_invoke env = Inr content \<and>
               json_loads env (strip_fence (py_strip content)) = Inr (PDict ai_data) \<and>
               map_of t ''roles'' =
                 Some (PList (valid_roles (dget_default ai_data ''roles'' (PStr ''vol'')))))"
    using primary_task_fields(1) by blast
  have fb: "\<forall>st u t. fallback_task env st u = Inr t \<longrightarrow>
            map_of t ''roles'' = Some (PList [PStr ''vol'']) \<or>
            map_of t ''roles'' = Some (PList [PStr ''fr'']) \<or>
            map_of t ''roles'' = Some (PList [PStr ''vol'', PStr ''fr''])"
  proof (intro allI impI)
    fix st u t assume t: "fallback_task env st u = Inr t"
    from fallback_task_fields(1)[OF t]
      fallback_classifier_roles[of env "help_needed st" u "latitude st" "longitude st"
        "nearby_resources st"]
    show "map_of t ''roles'' = Some (PList [PStr ''vol'']) \<or>
            map_of t ''roles'' = Some (PList [PStr ''fr'']) \<or>
            map_of t ''roles'' = Some (PList [PStr ''vol'', PStr ''fr''])"
      by auto
  qed
  show ?thesis using pipeline v p fb by blast
qed

lemma sample_disaster:
  assumes "get_disaster_document env ''d1'' = Inr (Some [(''emergency_type'', PStr ''flood'')])"
  shows "fetch_disaster_type env
           (initial_state ''d1'' ''u1'' ''Need food and water'' ''moderate'' ''12.0'' ''77.0'')
         = Inr sample_state"
  using assms
  by (simp add: fetch_disaster_type_def initial_state_def sample_state_def dget_default_def)

lemma replying_generate:
  "generate_emergency_task replying_env sample_state
     = Inr (sample_state\<lparr>generated_task := primary_sample_task\<rparr>)"
proof -
  have u: "normalize_urgency (urgency_type sample_state) = ''medium''"
    by (simp add: normalize_urgency_def sample_state_def)
  show ?thesis
    unfolding generate_emergency_task_def u Let_def
    by (simp add: primary_sample)
qed

theorem generated_roles_valid_witness:
  "get_disaster_document replying_env ''d1'' = Inr (Some [(''emergency_type'', PStr ''flood'')]) \<and>
   dget_default [(''emergency_type'', PStr ''flood'')] ''emergency_type''
       (PStr ''general emergency'') = PStr ''flood'' \<and>
   py_float replying_env (PStr ''12.0'') = Inr (Num 12) \<and>
   py_float replying_env (PStr ''77.0'') = Inr (Num 77) \<and>
   (\<exists>calls final.
      process_emergency_request replying_env ''d1'' ''u1'' ''Need food and water''
          ''moderate'' ''12.0'' ''77.0''
        = (calls, Inr final) \<and>
      generated_task final = primary_sample_task) \<and>
   map_of primary_sample_task ''roles'' = Some (PList [PStr ''vol'', PStr ''fr'']) \<and>
   set [PStr ''vol'', PStr ''fr''] \<subseteq> {PStr ''vol'', PStr ''fr''}"
proof -
  have h: "get_disaster_document replying_env ''d1''
             = Inr (Some [(''emergency_type'', PStr ''flood'')])"
    by (simp add: replying_env_def sample_env_def)
  have c: "dget_default [(''emergency_type'', PStr ''flood'')] ''emergency_type''
       (PStr ''general emergency'') = PStr ''flood''"
    by (simp add: dget_default_def)
  have fl: "py_float replying_env (PStr ''12.0'') = Inr (Num 12)"
    "py_float replying_env (PStr ''77.0'') = Inr (Num 77)"
    by (simp_all add: replying_env_def sample_env_def sample_float_def)
  have d: "fetch_disaster_type replying_env
             (initial_state ''d1'' ''u1'' ''Need food and water'' ''moderate'' ''12.0'' ''77.0'')
           = Inr sample_state"
    by (rule sample_disaster[OF h])
  have n: "fetch_nearby_resources replying_env sample_state = sample_state"
    by (simp add: fetch_nearby_resources_def fetch_nearby_resources_try_def
          collect_nearby_resources_def replying_env_def sample_defs)
  have r: "\<exists>calls final.
      process_emergency_request replying_env ''d1'' ''u1'' ''Need food and water''
          ''moderate'' ''12.0'' ''77.0''
        = (calls, Inr final) \<and>
      generated_task final = primary_sample_task"
    using run_graph_after_disaster[OF d] replying_generate
    by (simp add: n process_emergency_request_def)
  show ?thesis
    using generated_roles_valid[OF h c fl, of "''u1''" "''Need food and water''"
        "''moderate''" "PStr ''both''"] h c fl r
    by (simp add: primary_sample_task_def)
qed

text \<open>
  C2 as stated fails: a request whose disaster resolves but whose latitude is not a number
  gets no task at all, the run raises ValueError.
\<close>

theorem resolved_disaster_without_task_counterexample:
  "get_disaster_document sample_env ''d1''
     = Inr (Some [(''emergency_type'', PStr ''flood'')]) \<and>
   process_emergency_request sample_env ''d1'' ''u1'' ''Need food and water'' ''moderate''
       ''abc'' ''77.0''
     = ([], Inl bad_coordinate_error)"
  using bad_coordinate_run(2) by (simp add: sample_env_def)

theorem ranker_never_fatal_witness:
  "fetch_nearby_resources_try unreachable_env sample_state
     = Inl (Raised OtherException ''Server Error'') \<and>
   fetch_nearby_resources unreachable_env sample_state
     = sample_state\<lparr>nearby_resources := []\<rparr> \<and>
   fetch_disaster_type unreachable_env
       (initial_state ''d1'' ''u1'' ''Need food and water'' ''moderate'' ''12.0'' ''77.0'')
     = Inr sample_state \<and>
   generate_emergency_task unreachable_env (sample_state\<lparr>nearby_resources := []\<rparr>)
     = Inr (sample_state\<lparr>generated_task := sample_fallback_task\<rparr>) \<and>
   (\<exists>calls final.
      run_graph unreachable_env
          (initial_state ''d1'' ''u1'' ''Need food and water'' ''moderate'' ''12.0'' ''77.0'')
        = (calls, Inr final) \<and>
      generated_task final = sample_fallback_task)"
proof -
  have h: "fetch_nearby_resources_try unreachable_env sample_state
             = Inl (Raised OtherException ''Server Error'')"
    by (simp add: fetch_nearby_resources_try_def collect_nearby_resources_def unreachable_env_def sample_defs)
  have d: "fetch_disaster_type unreachable_env
       (initial_state ''d1'' ''u1'' ''Need food and water'' ''moderate'' ''12.0'' ''77.0'')
     = Inr sample_state"
    by (rule sample_disaster) (simp add: unreachable_env_def sample_env_def)
  have e: "sample_state\<lparr>nearby_resources := []\<rparr> = sample_state"
    by (simp add: sample_state_def)
  have p: "primary_task unreachable_env st u = Inl (Raised OtherException ''model unavailable'')"
    for st u
    by (simp add: primary_task_def unreachable_env_def sample_env_def)
  have f: "fallback_task unreachable_env sample_state ''medium'' = Inr sample_fallback_task"
    by (simp add: fallback_task_def unreachable_env_def sample_defs classifier_defs
          sample_fallback_task_def)
  have u: "normalize_urgency (urgency_type sample_state) = ''medium''"
    by (simp add: normalize_urgency_def sample_state_def)
  have g: "generate_emergency_task unreachable_env (sample_state\<lparr>nearby_resources := []\<rparr>)
     = Inr (sample_state\<lparr>generated_task := sample_fallback_task\<rparr>)"
    unfolding e generate_emergency_task_def u Let_def by (simp add: p f)
  have n: "fetch_nearby_resources unreachable_env sample_state = sample_state"
    using ranker_never_fatal[OF h] e by simp
  have r: "\<exists>calls final.
      run_graph unreachable_env
          (initial_state ''d1'' ''u1'' ''Need food and water'' ''moderate'' ''12.0'' ''77.0'')
        = (calls, Inr final) \<and>
      generated_task final = sample_fallback_task"
    using run_graph_after_disaster[OF d] g by (simp add: n e)
  show ?thesis
    using ranker_never_fatal[OF h] h d g r by simp
qed

end
